theory Spec2Isabelle
  imports Complex_Main
begin

section \<open>Cascading-flows surrogate posteriors: data model\<close>

text \<open>
  The development follows \<^verbatim>\<open>experimental/vi/cascading_flows.py\<close>. Distributions and
  bijectors are library objects of which the module only builds terms, so they are
  modelled as the terms the module builds; sampled values are tensors of which the
  module inspects only the Python type (list or not) and the shape.
\<close>

datatype error =
    TypeError
  | ValueError
  | AttributeError
  | IndexError
  | RuntimeError
  | UnboundLocalError
  | RecursionError
  | InvalidArgumentError
  | ModelError string

datatype seed = SeedNone | SeedInt int | SeedSplit seed nat

datatype val = Tensor "nat list" int | VList "val list"

datatype family =
    HalfNormal | Uniform | Exponential | Chi2
  | TruncatedNormal | Beta | Gamma | Normal | OtherFamily string

text \<open>Parameter expressions, as far as the default substitution rules compute them.\<close>

datatype pexp =
    PTensor nat
  | PConst real
  | PMul pexp pexp
  | PSub pexp pexp
  | POnesLike pexp
  | PMean pexp pexp

text \<open>
  Bijector terms. \<open>HighwayFlow width residual_fraction_initial_value activation_fn
  gate_first_n seed\<close> is a call of \<^verbatim>\<open>build_highway_flow_layer\<close>;
  \<open>Reshape event_shape_out event_shape_in\<close>, \<open>Chain bijectors\<close> and \<open>Split sizes\<close>
  are the library constructors with the arguments of the source. \<open>VStruct\<close> is the
  structure \<^verbatim>\<open>dist._model_unflatten\<close> packs a list of per-node variables into.
\<close>

datatype bijector =
    Reshape "int list" "int list"
  | HighwayFlow nat real bool nat seed
  | Chain "bijector list"
  | Split "int list"
  | Shift pexp
  | Scale pexp
  | VStruct "bijector list"

text \<open>
  Distribution terms and model programs. A model program is a generator: it stops,
  raises, or yields a node (the flag says whether the node is wrapped in \<^verbatim>\<open>Root\<close>)
  and continues from the value sent back. The programs the module itself builds yield
  either a node or, when they create variables, a pair of a node and its variables:
  this is the optional third argument of \<open>Yield\<close>. In \<open>Joint name autobatched program\<close>
  the flag says whether the object has the attribute \<^verbatim>\<open>use_vectorized_map\<close>.
\<close>

datatype dist =
    Leaf "string option" family "nat list" "(string \<times> pexp) list"
  | Transformed "string option" dist bijector
  | SampleD "string option" dist nat
  | Blockwise "string option" "dist list"
  | BatchBroadcast "string option" dist "nat list"
  | Independent "string option" dist nat
  | Deterministic "string option" val
  | Joint "string option" bool prog
and prog =
    Stop
  | Raise error
  | Yield bool dist "bijector option" "val \<Rightarrow> prog"


section \<open>The substitution registry\<close>

text \<open>
  \<^verbatim>\<open>ASVI_SURROGATE_SUBSTITUTIONS\<close> is a Python dict from condition objects to
  substitution functions. A dict keeps its keys in insertion order and compares them
  by \<^verbatim>\<open>__hash__\<close> and \<^verbatim>\<open>__eq__\<close>, so the table is an association list whose keys are
  what these methods compare. Functions and lambdas are equal only to themselves:
  \<open>Fresh n\<close> is the \<open>n\<close>-th lambda allocated by \<^verbatim>\<open>register_cf_substitution_rule\<close>
  itself, \<open>Function m\<close> a function object allocated by a caller. A bound method
  \<^verbatim>\<open>obj.f\<close> is a new object at every access, and two of them are equal when they
  bind the same function to the same object: \<open>BoundMethod obj f\<close>. The predicate a key
  stands for is stored beside it.
\<close>

datatype key = Fresh nat | Function nat | BoundMethod nat nat

type_synonym rule = "key \<times> (dist \<Rightarrow> bool) \<times> (dist \<Rightarrow> dist)"

record registry =
  rules :: "rule list"
  next_lambda :: nat

text \<open>
  The condition argument: a class, or a callable object, given by its identity
  (\<^verbatim>\<open>id(condition)\<close>), the key a dict compares it by, and its behaviour.
\<close>

datatype condition = Class family | Callable nat key "dist \<Rightarrow> bool"

text \<open>
  Modelled from the spec: \<^verbatim>\<open>isinstance(distribution, cls)\<close> for the distribution
  classes of the library, which are not part of this module; a type tag means
  "match by exact distributional family".
\<close>

fun isinstance :: "dist \<Rightarrow> family \<Rightarrow> bool" where
  "isinstance (Leaf n fam sh ps) cls = (fam = cls)"
| "isinstance d cls = False"

text \<open>\<^verbatim>\<open>_as_substituted_distribution\<close>: the loop over \<^verbatim>\<open>.items()\<close>.\<close>

fun substitute_loop :: "rule list \<Rightarrow> dist \<Rightarrow> dist" where
  "substitute_loop [] distribution = distribution"
| "substitute_loop ((k, condition, substitution_fn) # rest) distribution =
     substitute_loop rest
       (if condition distribution then substitution_fn distribution else distribution)"

definition as_substituted_distribution :: "registry \<Rightarrow> dist \<Rightarrow> dist" where
  "as_substituted_distribution reg distribution = substitute_loop (rules reg) distribution"

text \<open>
  \<^verbatim>\<open>d[key] = value\<close> on a dict: an existing key keeps its place and gets the new
  value, a new key is appended.
\<close>

fun dict_set :: "rule list \<Rightarrow> key \<Rightarrow> (dist \<Rightarrow> bool) \<Rightarrow> (dist \<Rightarrow> dist) \<Rightarrow> rule list" where
  "dict_set [] k c f = [(k, c, f)]"
| "dict_set ((k', c', f') # rest) k c f =
     (if k' = k then (k', c', f) # rest else (k', c', f') # dict_set rest k c f)"

fun register_cf_substitution_rule ::
  "condition \<Rightarrow> (dist \<Rightarrow> dist) \<Rightarrow> registry \<Rightarrow> registry" where
  "register_cf_substitution_rule (Class cls) substitution_fn reg =
     \<lparr> rules = dict_set (rules reg) (Fresh (next_lambda reg))
                 (\<lambda>distribution. isinstance distribution cls) substitution_fn,
       next_lambda = Suc (next_lambda reg) \<rparr>"
| "register_cf_substitution_rule (Callable ident k c) substitution_fn reg =
     \<lparr> rules = dict_set (rules reg) k c substitution_fn,
       next_lambda = next_lambda reg \<rparr>"

text \<open>Attribute access on a leaf distribution (\<^verbatim>\<open>dist.scale\<close>, \<^verbatim>\<open>dist.low\<close>, ...).\<close>

fun param :: "dist \<Rightarrow> string \<Rightarrow> pexp" where
  "param (Leaf n fam sh ps) a = (case map_of ps a of Some p \<Rightarrow> p | None \<Rightarrow> PConst 0)"
| "param d a = PConst 0"

text \<open>The four default rules, registered when the module is loaded.\<close>

definition half_normal_rule :: "dist \<Rightarrow> dist" where
  "half_normal_rule d = Leaf None TruncatedNormal []
     [(''loc'', PConst 0), (''scale'', param d ''scale''), (''low'', PConst 0),
      (''high'', PMul (param d ''scale'') (PConst 10))]"

definition uniform_rule :: "dist \<Rightarrow> dist" where
  "uniform_rule d =
     Transformed None
       (Transformed None
          (Leaf None Beta []
             [(''concentration0'', POnesLike (PMean (param d ''low'') (param d ''high''))),
              (''concentration1'', PConst 1)])
          (Scale (PSub (param d ''high'') (param d ''low''))))
       (Shift (param d ''low''))"

definition exponential_rule :: "dist \<Rightarrow> dist" where
  "exponential_rule d = Leaf None Gamma []
     [(''concentration'', PConst 1), (''rate'', param d ''rate'')]"

definition chi2_rule :: "dist \<Rightarrow> dist" where
  "chi2_rule d = Leaf None Gamma []
     [(''concentration'', PMul (PConst (1/2)) (param d ''df'')), (''rate'', PConst (1/2))]"

definition empty_registry :: registry where
  "empty_registry = \<lparr> rules = [], next_lambda = 0 \<rparr>"

definition default_registry :: registry where
  "default_registry =
     register_cf_substitution_rule (Class Chi2) chi2_rule
       (register_cf_substitution_rule (Class Exponential) exponential_rule
          (register_cf_substitution_rule (Class Uniform) uniform_rule
             (register_cf_substitution_rule (Class HalfNormal) half_normal_rule
                empty_registry)))"

text \<open>
  Every lambda the registry allocated so far is older than the next one: the
  invariant that makes a newly created lambda a new key.
\<close>




section \<open>Event shapes\<close>

text \<open>
  Modelled from the spec: the distribution library's introspection of a node's event
  shape, which is not part of this module. A leaf carries its event shape; a bijector
  maps the shape forward; the splitting transform partitions the last axis into parts;
  a joint distribution has one entry per node of its program, found by running the
  program on placeholder values.
\<close>

datatype shape = Sh "nat list" | Parts "shape list"

fun resolve_dim :: "nat \<Rightarrow> int list \<Rightarrow> int \<Rightarrow> nat" where
  "resolve_dim tot dims z =
     (if z < 0 then tot div prod_list (map nat (filter (\<lambda>y. 0 \<le> y) dims)) else nat z)"

fun forward_event_shape :: "bijector \<Rightarrow> shape \<Rightarrow> shape" where
  "forward_event_shape (Reshape event_shape_out event_shape_in) (Sh s) =
     (let n = length event_shape_in;
          pre = take (length s - n) s;
          suf = drop (length s - n) s
      in Sh (pre @ map (resolve_dim (prod_list suf) event_shape_out) event_shape_out))"
| "forward_event_shape (Split sizes) (Sh s) =
     Parts (map (\<lambda>z. Sh (butlast s @
                  [if z < 0 then last s - sum_list (map nat (filter (\<lambda>y. 0 \<le> y) sizes))
                   else nat z])) sizes)"
| "forward_event_shape (Chain bs) sh = foldr forward_event_shape bs sh"
| "forward_event_shape b sh = sh"

fun flat_size :: "shape \<Rightarrow> nat" where
  "flat_size (Sh s) = prod_list s"
| "flat_size (Parts ps) = sum_list (map flat_size ps)"

fun zeros :: "shape \<Rightarrow> val" where
  "zeros (Sh s) = Tensor s 0"
| "zeros (Parts ps) = VList (map zeros ps)"

fun val_shape :: "val \<Rightarrow> nat list" where
  "val_shape (Tensor s c) = s"
| "val_shape (VList vs) = []"

text \<open>
  The batch dimensions \<^verbatim>\<open>Independent\<close> turns into event dimensions; the module
  applies it to a \<^verbatim>\<open>Deterministic\<close> only, whose batch shape is the shape of its value.
\<close>

fun reinterpreted_dims :: "dist \<Rightarrow> nat \<Rightarrow> nat list" where
  "reinterpreted_dims (Deterministic n v) m = drop (length (val_shape v) - m) (val_shape v)"
| "reinterpreted_dims d m = []"

primrec event_shape :: "dist \<Rightarrow> shape"
  and program_event_shapes :: "prog \<Rightarrow> shape list" where
  "event_shape (Leaf n fam sh ps) = Sh sh"
| "event_shape (Transformed n d b) = forward_event_shape b (event_shape d)"
| "event_shape (SampleD n d m) =
     (case event_shape d of Sh s \<Rightarrow> Sh (m # s) | Parts ps \<Rightarrow> Parts ps)"
| "event_shape (Blockwise n ds) = Sh [sum_list (map (\<lambda>d. flat_size (event_shape d)) ds)]"
| "event_shape (BatchBroadcast n d to_shape) = event_shape d"
| "event_shape (Independent n d m) =
     (case event_shape d of Sh s \<Rightarrow> Sh (reinterpreted_dims d m @ s) | Parts ps \<Rightarrow> Parts ps)"
| "event_shape (Deterministic n v) = Sh []"
| "event_shape (Joint n ab p) = Parts (program_event_shapes p)"
| "program_event_shapes Stop = []"
| "program_event_shapes (Raise e) = []"
| "program_event_shapes (Yield r d vs k) =
     event_shape d # (program_event_shapes \<circ> k) (zeros (event_shape d))"

section \<open>The base-distribution surrogate builder\<close>

text \<open>
  \<^verbatim>\<open>int(actual_event_shape) if actual_event_shape.shape.as_list()[0] > 0 else 1\<close>:
  the event shape is a vector of integers; \<^verbatim>\<open>int\<close> of a vector converts a vector of
  one element and raises \<^verbatim>\<open>TypeError\<close> on a longer one.
\<close>

definition int_event_shape :: "nat list \<Rightarrow> error + nat" where
  "int_event_shape actual_event_shape =
     (if length actual_event_shape > 0
      then (case actual_event_shape of [n] \<Rightarrow> Inr n | _ \<Rightarrow> Inl TypeError)
      else Inr 1)"

text \<open>
  \<^verbatim>\<open>dist.event_shape_tensor()\<close>; on a structured event the result is a structure,
  which has no attribute \<^verbatim>\<open>shape\<close>.
\<close>

definition event_shape_tensor :: "dist \<Rightarrow> error + nat list" where
  "event_shape_tensor d = (case event_shape d of Sh s \<Rightarrow> Inr s | Parts ps \<Rightarrow> Inl AttributeError)"

text \<open>\<^verbatim>\<open>actual_event_shape + num_auxiliary_variables\<close> adds to every entry of the vector.\<close>

definition plus_aux :: "nat list \<Rightarrow> nat \<Rightarrow> nat list" where
  "plus_aux actual_event_shape num_auxiliary_variables =
     map (\<lambda>n. n + num_auxiliary_variables) actual_event_shape"

text \<open>The construction branch, lines 460 to 483: \<^verbatim>\<open>if variables is None\<close>.\<close>

definition new_base_variables :: "dist \<Rightarrow> real \<Rightarrow> nat \<Rightarrow> seed \<Rightarrow> error + bijector" where
  "new_base_variables d initial_prior_weight num_auxiliary_variables sd =
     (case event_shape_tensor d of Inl e \<Rightarrow> Inl e
      | Inr actual_event_shape \<Rightarrow>
     (case int_event_shape actual_event_shape of Inl e \<Rightarrow> Inl e
      | Inr gate \<Rightarrow>
        let width = prod_list (plus_aux actual_event_shape num_auxiliary_variables);
            bijectors =
              [Reshape [-1] (map int (plus_aux actual_event_shape num_auxiliary_variables))]
              @ replicate (3 - 1) (HighwayFlow width initial_prior_weight True gate sd)
              @ [HighwayFlow width initial_prior_weight False gate sd]
              @ [Reshape (map int (plus_aux actual_event_shape num_auxiliary_variables)) [-1]]
        in Inr (Chain (rev bijectors))))"

text \<open>
  \<^verbatim>\<open>_cf_convex_update_for_base_distribution\<close>. The auxiliary value is \<open>None\<close> for
  Python's \<^verbatim>\<open>None\<close>; \<^verbatim>\<open>None\<close> and a list have no attribute \<^verbatim>\<open>shape\<close>.
\<close>

definition cf_convex_update_for_base_distribution ::
  "dist \<Rightarrow> real \<Rightarrow> nat \<Rightarrow> val option \<Rightarrow> bijector option \<Rightarrow> seed
     \<Rightarrow> error + (dist \<times> bijector)" where
  "cf_convex_update_for_base_distribution d initial_prior_weight num_auxiliary_variables
       global_auxiliary_variables variables sd =
     (case (case variables of
              None \<Rightarrow> new_base_variables d initial_prior_weight num_auxiliary_variables sd
            | Some v \<Rightarrow> Inr v) of
        Inl e \<Rightarrow> Inl e
      | Inr vars \<Rightarrow>
          if num_auxiliary_variables > 0 then
            (case global_auxiliary_variables of
               Some (Tensor sh c) \<Rightarrow>
                 let batch_shape = (if length sh > 1 then [hd sh] else [])
                 in Inr (Transformed None
                           (Transformed None
                              (Blockwise None
                                 [BatchBroadcast None d batch_shape,
                                  Independent None (Deterministic None (Tensor sh c)) 1])
                              vars)
                           (Split [-1, int num_auxiliary_variables]),
                         vars)
             | _ \<Rightarrow> Inl AttributeError)
          else Inr (Transformed None d vars, vars))"

section \<open>The variable-extraction driver\<close>

text \<open>
  Modelled from the spec: the seed-splitting utility, "given a seed,
  deterministically derive independent child seeds".
\<close>

definition split_seed :: "seed \<Rightarrow> seed \<times> seed" where
  "split_seed sd = (SeedSplit sd 0, SeedSplit sd 1)"

text \<open>
  \<^verbatim>\<open>_extract_variables_from_coroutine_model\<close>. The sampler of the distribution
  library is the parameter \<open>smp\<close>. The list \<^verbatim>\<open>flat_variables\<close> is unbound until
  the first item has been unpacked. An item that is not a pair cannot be unpacked into
  two names: a bare \<^verbatim>\<open>Root\<close> is a tuple of one field (\<^verbatim>\<open>ValueError\<close>), a bare
  distribution is not iterable (\<^verbatim>\<open>TypeError\<close>).
\<close>

primrec extract_loop ::
  "(dist \<Rightarrow> seed \<Rightarrow> val) \<Rightarrow> prog \<Rightarrow> seed \<Rightarrow> bijector list option \<Rightarrow> error + bijector list" where
  "extract_loop smp Stop = (\<lambda>sd flat_variables.
     case flat_variables of None \<Rightarrow> Inl UnboundLocalError | Some fl \<Rightarrow> Inr fl)"
| "extract_loop smp (Raise e) = (\<lambda>sd flat_variables. Inl e)"
| "extract_loop smp (Yield is_root d vs cont) = (\<lambda>sd flat_variables.
     case vs of None \<Rightarrow> Inl (if is_root then ValueError else TypeError)
     | Some dist_variables \<Rightarrow>
         let fl = (case flat_variables of None \<Rightarrow> [dist_variables]
                   | Some fl0 \<Rightarrow> fl0 @ [dist_variables]);
             local_seed = snd (split_seed sd);
             sampled_value = smp d local_seed
         in extract_loop smp (cont sampled_value) (fst (split_seed sd)) (Some fl))"

definition extract_variables_from_coroutine_model ::
  "(dist \<Rightarrow> seed \<Rightarrow> val) \<Rightarrow> prog \<Rightarrow> seed \<Rightarrow> error + bijector list" where
  "extract_variables_from_coroutine_model smp gen sd = extract_loop smp gen sd None"

section \<open>The recursive graph walker\<close>

text \<open>\<^verbatim>\<open>_get_name\<close> and \<^verbatim>\<open>_set_name\<close>: the name is a constructor argument of every node.\<close>

fun get_name :: "dist \<Rightarrow> string option" where
  "get_name (Leaf n fam sh ps) = n"
| "get_name (Transformed n d b) = n"
| "get_name (SampleD n d m) = n"
| "get_name (Blockwise n ds) = n"
| "get_name (BatchBroadcast n d sh) = n"
| "get_name (Independent n d m) = n"
| "get_name (Deterministic n v) = n"
| "get_name (Joint n ab p) = n"

fun set_name :: "dist \<Rightarrow> string option \<Rightarrow> dist" where
  "set_name (Leaf n fam sh ps) name = Leaf name fam sh ps"
| "set_name (Transformed n d b) name = Transformed name d b"
| "set_name (SampleD n d m) name = SampleD name d m"
| "set_name (Blockwise n ds) name = Blockwise name ds"
| "set_name (BatchBroadcast n d sh) name = BatchBroadcast name d sh"
| "set_name (Independent n d m) name = Independent name d m"
| "set_name (Deterministic n v) name = Deterministic name v"
| "set_name (Joint n ab p) name = Joint name ab p"

text \<open>
  A local variable of a Python function is unbound until its first assignment;
  reading it before raises \<^verbatim>\<open>UnboundLocalError\<close>.
\<close>

datatype 'a local_var = Unbound | Bound 'a

text \<open>Truth value of \<^verbatim>\<open>flat_variables\<close>: \<^verbatim>\<open>None\<close> and the empty list are false.\<close>

fun truthy :: "bijector list option \<Rightarrow> bool" where
  "truthy None = False"
| "truthy (Some fl) = (fl \<noteq> [])"

text \<open>\<^verbatim>\<open>flat_variables[i] if flat_variables else None\<close>.\<close>

definition variables_at :: "bijector list option \<Rightarrow> nat \<Rightarrow> error + bijector option" where
  "variables_at flat_variables i =
     (case flat_variables of
        None \<Rightarrow> Inr None
      | Some fl \<Rightarrow> if fl = [] then Inr None
                   else if i < length fl then Inr (Some (fl ! i)) else Inl IndexError)"

text \<open>\<^verbatim>\<open>len(dist.event_shape)\<close>.\<close>

fun shape_len :: "shape \<Rightarrow> nat" where
  "shape_len (Sh s) = length s"
| "shape_len (Parts ps) = length ps"

text \<open>\<^verbatim>\<open>tf.squeeze(x, -1)\<close>: the last axis must have size 1.\<close>

fun squeeze_last :: "val \<Rightarrow> error + val" where
  "squeeze_last (Tensor s c) =
     (if s \<noteq> [] \<and> last s = 1 then Inr (Tensor (butlast s) c) else Inl InvalidArgumentError)"
| "squeeze_last (VList vs) = Inl InvalidArgumentError"

text \<open>
  Lines 396 to 403: the value forwarded to the prior program. Only a value of Python
  type \<^verbatim>\<open>list\<close> is taken apart.
\<close>

fun forwarded_value :: "dist \<Rightarrow> val \<Rightarrow> error + val" where
  "forwarded_value d (VList vs) =
     (if shape_len (event_shape d) = 0
      then (case vs of [] \<Rightarrow> Inl IndexError | v # rest \<Rightarrow> squeeze_last v)
      else (case vs of [] \<Rightarrow> Inl IndexError | v # rest \<Rightarrow> Inr v))"
| "forwarded_value d (Tensor s c) = Inr (Tensor s c)"

text \<open>
  The \<^verbatim>\<open>while True\<close> loop of \<^verbatim>\<open>posterior_generator\<close>, lines 373 to 406, entered
  with the node the prior program has just yielded. \<open>node_fn\<close> is the recursive call
  of \<^verbatim>\<open>_cf_surrogate_for_distribution\<close>; \<open>aux\<close> is the local variable
  \<^verbatim>\<open>global_auxiliary_variables\<close> of the generator. The arguments of that call are
  evaluated from left to right, so \<^verbatim>\<open>flat_variables[i]\<close> is read before
  \<^verbatim>\<open>global_auxiliary_variables\<close>.
\<close>

primrec walk ::
  "(dist \<Rightarrow> bijector option \<Rightarrow> val option \<Rightarrow> seed \<Rightarrow> error + (dist \<times> bijector))
     \<Rightarrow> nat \<Rightarrow> bijector list option \<Rightarrow> val option local_var
     \<Rightarrow> prog \<Rightarrow> seed \<Rightarrow> nat \<Rightarrow> prog" where
  "walk node_fn num_auxiliary_variables flat_variables aux Stop = (\<lambda>sd i. Stop)"
| "walk node_fn num_auxiliary_variables flat_variables aux (Raise e) = (\<lambda>sd i. Raise e)"
| "walk node_fn num_auxiliary_variables flat_variables aux (Yield was_root d vs cont) = (\<lambda>sd i.
     case variables_at flat_variables i of Inl e \<Rightarrow> Raise e
     | Inr variables_i \<Rightarrow>
     (case aux of Unbound \<Rightarrow> Raise UnboundLocalError
      | Bound global_auxiliary_variables \<Rightarrow>
     (case node_fn d variables_i global_auxiliary_variables (snd (split_seed sd)) of
        Inl e \<Rightarrow> Raise e
      | Inr (surrogate_posterior, variables) \<Rightarrow>
          Yield (was_root \<and> num_auxiliary_variables = 0) surrogate_posterior
            (if truthy flat_variables then None else Some variables)
            (\<lambda>value_out.
               case forwarded_value d value_out of Inl e \<Rightarrow> Raise e
               | Inr v \<Rightarrow>
                   walk node_fn num_auxiliary_variables flat_variables aux (cont v)
                     (fst (split_seed sd)) (Suc i)))))"

text \<open>The stack of the auxiliary-variable generator, lines 341 to 356.\<close>

definition new_auxiliary_variables :: "nat \<Rightarrow> seed \<Rightarrow> bijector" where
  "new_auxiliary_variables num_auxiliary_variables sd =
     (let bijectors =
            replicate (3 - 1) (HighwayFlow num_auxiliary_variables (1/2) True 0 sd)
            @ [HighwayFlow num_auxiliary_variables (1/2) False 0 sd]
      in Chain (rev bijectors))"

definition auxiliary_noise :: "nat \<Rightarrow> dist" where
  "auxiliary_noise num_auxiliary_variables =
     SampleD None (Leaf None Normal [] [(''loc'', PConst 0), (''scale'', PConst (1/10))])
       num_auxiliary_variables"

text \<open>
  \<^verbatim>\<open>posterior_generator\<close>. \<^verbatim>\<open>next(prior_gen)\<close> on a program that yields nothing
  raises \<^verbatim>\<open>StopIteration\<close> inside a generator, which Python turns into
  \<^verbatim>\<open>RuntimeError\<close>. The name \<^verbatim>\<open>global_auxiliary_variables\<close> is assigned in the
  generator (line 368), so it is a local variable of the generator, bound only on the
  branch \<^verbatim>\<open>num_auxiliary_variables > 0\<close>.
\<close>

definition posterior_generator ::
  "(dist \<Rightarrow> bijector option \<Rightarrow> val option \<Rightarrow> seed \<Rightarrow> error + (dist \<times> bijector))
     \<Rightarrow> nat \<Rightarrow> bijector list option \<Rightarrow> seed \<Rightarrow> prog \<Rightarrow> prog" where
  "posterior_generator node_fn num_auxiliary_variables flat_variables sd prior_gen =
     (case prior_gen of
        Stop \<Rightarrow> Raise RuntimeError
      | Raise e \<Rightarrow> Raise e
      | Yield r d vs cont \<Rightarrow>
          if num_auxiliary_variables > 0 then
            (let variables = (if truthy flat_variables then hd (the flat_variables)
                              else new_auxiliary_variables num_auxiliary_variables sd);
                 eps = Transformed None (auxiliary_noise num_auxiliary_variables) variables
             in Yield True eps (if truthy flat_variables then None else Some variables)
                  (\<lambda>value_out. walk node_fn num_auxiliary_variables flat_variables
                                  (Bound (Some value_out)) prior_gen sd 1))
          else walk node_fn num_auxiliary_variables flat_variables Unbound prior_gen sd 0)"

section \<open>The surrogate assembler\<close>

text \<open>
  Modelled from the spec: \<^verbatim>\<open>dist._model_flatten\<close> and \<^verbatim>\<open>dist._model_unflatten\<close> of
  the distribution library, "one slot per node": unflattening packs the list of
  per-node variables into a structure, flattening a structure gives the list back,
  and an object that is not a structure cannot be flattened.
\<close>

definition model_unflatten :: "bijector list \<Rightarrow> bijector" where
  "model_unflatten fl = VStruct fl"

fun model_flatten :: "bijector \<Rightarrow> error + bijector list" where
  "model_flatten (VStruct fl) = Inr fl"
| "model_flatten b = Inl TypeError"

text \<open>Truth value of \<^verbatim>\<open>variables\<close>: \<^verbatim>\<open>None\<close> and an empty structure are false.\<close>

fun truthy_variables :: "bijector option \<Rightarrow> bool" where
  "truthy_variables None = False"
| "truthy_variables (Some (VStruct fl)) = (fl \<noteq> [])"
| "truthy_variables (Some b) = True"

text \<open>
  \<^verbatim>\<open>_cf_surrogate_for_joint_distribution\<close> with variables supplied (the part after
  line 423): the surrogate is a joint distribution over \<^verbatim>\<open>posterior_generator\<close>, of
  the auto-batched kind exactly when the prior has \<^verbatim>\<open>use_vectorized_map\<close>, under the
  prior's name.
\<close>

definition joint_from_variables ::
  "(dist \<Rightarrow> bijector option \<Rightarrow> val option \<Rightarrow> seed \<Rightarrow> error + (dist \<times> bijector))
     \<Rightarrow> string option \<Rightarrow> bool \<Rightarrow> prog \<Rightarrow> bijector \<Rightarrow> nat \<Rightarrow> seed
     \<Rightarrow> error + (dist \<times> bijector)" where
  "joint_from_variables node_fn name autobatched prior_coroutine variables
       num_auxiliary_variables sd =
     (case (if truthy_variables (Some variables)
            then map_sum id Some (model_flatten variables) else Inr None) of
        Inl e \<Rightarrow> Inl e
      | Inr flat_variables \<Rightarrow>
          Inr (Joint name autobatched
                 (posterior_generator node_fn num_auxiliary_variables flat_variables sd
                    prior_coroutine),
               variables))"

text \<open>
  \<^verbatim>\<open>_cf_surrogate_for_joint_distribution\<close>: without variables, the harvest pass runs
  the generator once and the function calls itself with what was harvested. That call
  (lines 415 to 422) passes no seed, so the generator of the finished surrogate is
  seeded with the default \<^verbatim>\<open>None\<close>.
\<close>

definition cf_surrogate_for_joint_distribution ::
  "(dist \<Rightarrow> bijector option \<Rightarrow> val option \<Rightarrow> seed \<Rightarrow> error + (dist \<times> bijector))
     \<Rightarrow> (dist \<Rightarrow> seed \<Rightarrow> val)
     \<Rightarrow> string option \<Rightarrow> bool \<Rightarrow> prog \<Rightarrow> bijector option \<Rightarrow> nat \<Rightarrow> seed
     \<Rightarrow> error + (dist \<times> bijector)" where
  "cf_surrogate_for_joint_distribution node_fn smp name autobatched prior_coroutine variables
       num_auxiliary_variables sd =
     (case variables of
        None \<Rightarrow>
          (case extract_variables_from_coroutine_model smp
                  (posterior_generator node_fn num_auxiliary_variables None sd prior_coroutine)
                  sd of
             Inl e \<Rightarrow> Inl e
           | Inr harvested \<Rightarrow>
               joint_from_variables node_fn name autobatched prior_coroutine
                 (model_unflatten harvested) num_auxiliary_variables SeedNone)
      | Some vs \<Rightarrow>
          joint_from_variables node_fn name autobatched prior_coroutine vs
            num_auxiliary_variables sd)"

text \<open>
  \<^verbatim>\<open>_cf_surrogate_for_distribution\<close>. The function calls itself through the
  generator; the first argument bounds the depth of these calls, and Python raises
  \<^verbatim>\<open>RecursionError\<close> where the bound is reached. The call inside the generator
  (line 380) does not pass \<^verbatim>\<open>num_auxiliary_variables\<close>, which is then the default 0;
  the builder for base distributions keeps the count it was given at the top
  (\<open>aux_count\<close>, bound by \<^verbatim>\<open>functools.partial\<close>).
\<close>

primrec cf_surrogate_for_distribution ::
  "nat \<Rightarrow> registry \<Rightarrow> (dist \<Rightarrow> seed \<Rightarrow> val) \<Rightarrow> real \<Rightarrow> nat
     \<Rightarrow> dist \<Rightarrow> bijector option \<Rightarrow> nat \<Rightarrow> val option \<Rightarrow> seed
     \<Rightarrow> error + (dist \<times> bijector)" where
  "cf_surrogate_for_distribution 0 reg smp initial_prior_weight aux_count =
     (\<lambda>d variables num_auxiliary_variables global_auxiliary_variables sd. Inl RecursionError)"
| "cf_surrogate_for_distribution (Suc depth) reg smp initial_prior_weight aux_count =
     (\<lambda>d variables num_auxiliary_variables global_auxiliary_variables sd.
        case set_name (as_substituted_distribution reg d) (get_name d) of
          Joint name autobatched prior_coroutine \<Rightarrow>
            cf_surrogate_for_joint_distribution
              (\<lambda>d' variables' aux' sd'.
                 cf_surrogate_for_distribution depth reg smp initial_prior_weight aux_count
                   d' variables' 0 aux' sd')
              smp name autobatched prior_coroutine variables num_auxiliary_variables sd
        | base \<Rightarrow>
            cf_convex_update_for_base_distribution base initial_prior_weight aux_count
              global_auxiliary_variables variables sd)"

text \<open>
  \<^verbatim>\<open>build_cf_surrogate_posterior\<close>: the surrogate and the variables stored in its
  attribute \<^verbatim>\<open>also_track\<close>.
\<close>

definition build_cf_surrogate_posterior ::
  "nat \<Rightarrow> registry \<Rightarrow> (dist \<Rightarrow> seed \<Rightarrow> val) \<Rightarrow> dist \<Rightarrow> nat \<Rightarrow> real \<Rightarrow> seed
     \<Rightarrow> error + (dist \<times> bijector)" where
  "build_cf_surrogate_posterior depth reg smp prior num_auxiliary_variables
       initial_prior_weight sd =
     cf_surrogate_for_distribution depth reg smp initial_prior_weight num_auxiliary_variables
       prior None num_auxiliary_variables None sd"

section \<open>Reference terms and example models\<close>

text \<open>
  The chain of the base-distribution builder as the specification words it: reshape to
  flat, two gated residual layers with the nonlinearity, one without, reshape back.
  A chain applies its last bijector first, so the list is in reverse order of
  application. The gate count is 1 for an event of rank zero and the dimension of a
  vector event.
\<close>

definition base_chain :: "nat list \<Rightarrow> real \<Rightarrow> nat \<Rightarrow> seed \<Rightarrow> bijector" where
  "base_chain es w k sd =
     (let shp = map int (plus_aux es k); width = prod_list (plus_aux es k);
          gate = (case es of [] \<Rightarrow> 1 | n # rest \<Rightarrow> n)
      in Chain [Reshape shp [-1],
                HighwayFlow width w False gate sd,
                HighwayFlow width w True gate sd,
                HighwayFlow width w True gate sd,
                Reshape [-1] shp])"

fun is_tensor :: "val option \<Rightarrow> bool" where
  "is_tensor (Some (Tensor sh c)) = True"
| "is_tensor v = False"

text \<open>
  Modelled from the spec: a sampler of the distribution library that returns
  placeholder values of the node's event shape, used to run the examples.
\<close>

definition placeholder_sample :: "dist \<Rightarrow> seed \<Rightarrow> val" where
  "placeholder_sample d sd = zeros (event_shape d)"

definition vec_leaf :: "string \<Rightarrow> nat \<Rightarrow> dist" where
  "vec_leaf name n = Leaf (Some name) (OtherFamily ''MultivariateNormalDiag'') [n] []"

definition matrix_leaf :: dist where
  "matrix_leaf = Leaf (Some ''m'') (OtherFamily ''WishartTriL'') [2, 2] []"

definition one_node_prior :: dist where
  "one_node_prior =
     Joint (Some ''prior'') True (Yield False (vec_leaf ''x'' 3) None (\<lambda>v. Stop))"

definition root_node_prior :: dist where
  "root_node_prior =
     Joint (Some ''prior'') True (Yield True (vec_leaf ''x'' 3) None (\<lambda>v. Stop))"

definition nested_prior :: dist where
  "nested_prior = Joint (Some ''outer'') True (Yield False one_node_prior None (\<lambda>v. Stop))"

section \<open>Runs of a model program\<close>

text \<open>
  A model program is observed by sending it values: \<open>nodes p vs\<close> are the nodes
  \<open>p\<close> yields when the values \<open>vs\<close> are sent in turn, with their root tags;
  \<open>completes p vs\<close> says that \<open>p\<close> consumes exactly the values \<open>vs\<close>, one per
  node, and then ends without raising. \<open>forward_all p vs\<close> are the values the
  walker forwards to the prior program \<open>p\<close> when the surrogate is sent \<open>vs\<close>.
  \<open>substituted\<close> is the first line of \<^verbatim>\<open>_cf_surrogate_for_distribution\<close>;
  \<open>split_surrogate\<close> is the node the base builder returns with auxiliary variables;
  \<open>top_node_fn\<close> is the call the generator of the top-level model makes per node.
\<close>

primrec nodes :: "prog \<Rightarrow> val list \<Rightarrow> (bool \<times> dist) list" where
  "nodes Stop = (\<lambda>vs. [])"
| "nodes (Raise e) = (\<lambda>vs. [])"
| "nodes (Yield r d b cont) = (\<lambda>vs.
     (r, d) # (case vs of [] \<Rightarrow> [] | v # rest \<Rightarrow> nodes (cont v) rest))"

primrec completes :: "prog \<Rightarrow> val list \<Rightarrow> bool" where
  "completes Stop = (\<lambda>vs. vs = [])"
| "completes (Raise e) = (\<lambda>vs. False)"
| "completes (Yield r d b cont) = (\<lambda>vs.
     case vs of [] \<Rightarrow> False | v # rest \<Rightarrow> completes (cont v) rest)"

primrec forward_all :: "prog \<Rightarrow> val list \<Rightarrow> val list option" where
  "forward_all Stop = (\<lambda>vs. Some [])"
| "forward_all (Raise e) = (\<lambda>vs. Some [])"
| "forward_all (Yield r d b cont) = (\<lambda>vs.
     case vs of [] \<Rightarrow> Some []
     | v # rest \<Rightarrow>
         (case forwarded_value d v of Inl e \<Rightarrow> None
          | Inr w \<Rightarrow> map_option ((#) w) (forward_all (cont w) rest)))"

definition substituted :: "registry \<Rightarrow> dist \<Rightarrow> dist" where
  "substituted reg d = set_name (as_substituted_distribution reg d) (get_name d)"

fun is_joint :: "dist \<Rightarrow> bool" where
  "is_joint (Joint n ab p) = True"
| "is_joint d = False"

definition split_surrogate :: "registry \<Rightarrow> nat \<Rightarrow> nat list \<Rightarrow> int \<Rightarrow> dist \<Rightarrow> bijector \<Rightarrow> dist" where
  "split_surrogate reg k sh c d b =
     Transformed None
       (Transformed None
          (Blockwise None
             [BatchBroadcast None (substituted reg d) (if length sh > 1 then [hd sh] else []),
              Independent None (Deterministic None (Tensor sh c)) 1])
          b)
       (Split [-1, int k])"

definition top_node_fn ::
  "nat \<Rightarrow> registry \<Rightarrow> (dist \<Rightarrow> seed \<Rightarrow> val) \<Rightarrow> real \<Rightarrow> nat
     \<Rightarrow> dist \<Rightarrow> bijector option \<Rightarrow> val option \<Rightarrow> seed \<Rightarrow> error + (dist \<times> bijector)" where
  "top_node_fn depth reg smp w k =
     (\<lambda>d' variables' aux' sd'. cf_surrogate_for_distribution depth reg smp w k d' variables' 0 aux' sd')"

definition one_node_variables :: "bijector list" where
  "one_node_variables =
     [new_auxiliary_variables 2 SeedNone, base_chain [3] (1/2) 2 (SeedSplit SeedNone 1)]"

definition one_node_program :: prog where
  "one_node_program = Yield False (vec_leaf ''x'' 3) None (\<lambda>v. Stop)"

definition one_node_surrogate_program :: prog where
  "one_node_surrogate_program =
     posterior_generator (top_node_fn (Suc 0) default_registry placeholder_sample (1/2) 2) 2
       (Some one_node_variables) SeedNone one_node_program"

text \<open>
  \<open>yielded_variables p vs\<close> are the variables the program yields beside its nodes on
  the run that is sent \<open>vs\<close>: \<open>Some\<close> where the generator created and yielded
  variables, \<open>None\<close> where it yielded a bare node.
\<close>

primrec yielded_variables :: "prog \<Rightarrow> val list \<Rightarrow> bijector option list" where
  "yielded_variables Stop = (\<lambda>vs. [])"
| "yielded_variables (Raise e) = (\<lambda>vs. [])"
| "yielded_variables (Yield r d b cont) = (\<lambda>vs.
     b # (case vs of [] \<Rightarrow> [] | v # rest \<Rightarrow> yielded_variables (cont v) rest))"

text \<open>
  \<open>fixed_length p n\<close>: whatever values are sent, the program \<open>p\<close> yields exactly
  \<open>n\<close> nodes and then ends; a model of \<open>n\<close> sequential nodes.
\<close>

primrec fixed_length :: "prog \<Rightarrow> nat \<Rightarrow> bool" where
  "fixed_length Stop = (\<lambda>n. n = 0)"
| "fixed_length (Raise e) = (\<lambda>n. False)"
| "fixed_length (Yield r d b cont) = (\<lambda>n.
     case n of 0 \<Rightarrow> False | Suc m \<Rightarrow> \<forall>v. fixed_length (cont v) m)"

text \<open>
  \<open>reuse_from fl node_fn\<close> is \<open>node_fn\<close> cut down to calls that supply variables taken
  from the list \<open>fl\<close>; every other call, and so every call that would create
  variables, fails.
\<close>

definition reuse_from ::
  "bijector list
     \<Rightarrow> (dist \<Rightarrow> bijector option \<Rightarrow> val option \<Rightarrow> seed \<Rightarrow> error + (dist \<times> bijector))
     \<Rightarrow> dist \<Rightarrow> bijector option \<Rightarrow> val option \<Rightarrow> seed \<Rightarrow> error + (dist \<times> bijector)" where
  "reuse_from fl node_fn =
     (\<lambda>d variables aux sd.
        case variables of
          None \<Rightarrow> Inl RuntimeError
        | Some b \<Rightarrow> if b \<in> set fl then node_fn d (Some b) aux sd else Inl RuntimeError)"

text \<open>A model of two vector nodes, with what its construction harvests.\<close>

definition two_node_program :: prog where
  "two_node_program =
     Yield False (vec_leaf ''x'' 3) None (\<lambda>v. Yield False (vec_leaf ''y'' 4) None (\<lambda>v'. Stop))"

definition two_node_prior :: dist where
  "two_node_prior = Joint (Some ''prior'') True two_node_program"

definition two_node_variables :: "bijector list" where
  "two_node_variables =
     [new_auxiliary_variables 2 SeedNone,
      base_chain [3] (1/2) 2 (SeedSplit SeedNone 1),
      base_chain [4] (1/2) 2 (SeedSplit (SeedSplit SeedNone 0) 1)]"

definition two_node_surrogate_program :: prog where
  "two_node_surrogate_program =
     posterior_generator (top_node_fn (Suc 0) default_registry placeholder_sample (1/2) 2) 2
       (Some two_node_variables) SeedNone two_node_program"

section \<open>Two runs\<close>










section \<open>Properties of the registry\<close>

lemma substitute_loop_snoc:
  "substitute_loop (rs @ [(k, c, f)]) d =
     (let d' = substitute_loop rs d in if c d' then f d' else d')"
  by (induction rs d rule: substitute_loop.induct) (simp_all add: Let_def)


lemma dict_set_keys:
  "map fst (dict_set rs k c f) = (if k \<in> fst ` set rs then map fst rs else map fst rs @ [k])"
  by (induction rs) force+





text \<open>
  C5. Applying the substitutions visits the rules in registration order and replaces
  the node by \<open>substitution_fn node\<close> once for every rule whose condition matches the
  node as substituted so far: on the empty table the node is returned unchanged, and
  the rule registered last is tried last, on the result of all the earlier ones.
\<close>

theorem substitution_registration_order:
  "as_substituted_distribution \<lparr>rules = [], next_lambda = n\<rparr> d = d \<and>
   as_substituted_distribution \<lparr>rules = rs @ [(k, c, f)], next_lambda = n\<rparr> d =
     (let d' = as_substituted_distribution \<lparr>rules = rs, next_lambda = n\<rparr> d
      in if c d' then f d' else d')"
  by (simp add: as_substituted_distribution_def substitute_loop_snoc)





section \<open>Properties of the base-distribution builder\<close>

lemma int_event_shape_small:
  "length es \<le> 1 \<Longrightarrow> int_event_shape es = Inr (case es of [] \<Rightarrow> 1 | n # rest \<Rightarrow> n)"
  by (cases es) (auto simp: int_event_shape_def split: list.splits)

lemma new_base_variables_small:
  assumes "event_shape d = Sh es" and "length es \<le> 1"
  shows "new_base_variables d w k sd = Inr (base_chain es w k sd)"
  using assms
  by (simp add: new_base_variables_def event_shape_tensor_def int_event_shape_small
      base_chain_def Let_def numeral_2_eq_2)

text \<open>
  On a node whose event shape has rank at most one the builder, in construction mode,
  returns as the node's variables the chain of: reshape to flat, two gated residual
  layers with the nonlinearity, one without, reshape back to the event shape with the
  auxiliary count added to its entries; all three layers start at
  \<open>initial_prior_weight\<close>, and the gate count is 1 for rank zero. With auxiliary
  variables the auxiliary value must be a tensor, otherwise the builder raises.
\<close>

lemma base_builder_creates_chain:
  assumes "event_shape d = Sh es" and "length es \<le> 1"
  shows "map_sum id snd (cf_convex_update_for_base_distribution d w k aux None sd) =
           (if k > 0 \<and> \<not> is_tensor aux then Inl AttributeError
            else Inr (base_chain es w k sd))"
proof (cases "k > 0 \<and> \<not> is_tensor aux")
  case True
  then show ?thesis
    by (cases aux rule: is_tensor.cases)
       (simp_all add: cf_convex_update_for_base_distribution_def
          new_base_variables_small [OF assms])
next
  case False
  then show ?thesis
    by (cases aux rule: is_tensor.cases)
       (simp_all add: cf_convex_update_for_base_distribution_def
          new_base_variables_small [OF assms] Let_def)
qed

lemma base_builder_creates_chain_example:
  "event_shape (Leaf (Some ''z'') Normal [] []) = Sh [] \<and> length ([] :: nat list) \<le> 1 \<and>
   map_sum id snd (cf_convex_update_for_base_distribution (Leaf (Some ''z'') Normal [] [])
                     (1/2) 0 None None SeedNone) =
     Inr (Chain [Reshape [] [-1],
                 HighwayFlow 1 (1/2) False 1 SeedNone,
                 HighwayFlow 1 (1/2) True 1 SeedNone,
                 HighwayFlow 1 (1/2) True 1 SeedNone,
                 Reshape [-1] []])"
proof -
  have h1: "event_shape (Leaf (Some ''z'') Normal [] []) = Sh []" by simp
  have h2: "length ([] :: nat list) \<le> 1" by simp
  from base_builder_creates_chain [OF h1 h2, of "1/2" 0 None SeedNone]
  show ?thesis using h1 h2 by (simp add: base_chain_def plus_aux_def)
qed

lemma int_event_shape_large:
  "2 \<le> length es \<Longrightarrow> int_event_shape es = Inl TypeError"
  by (cases es) (auto simp: int_event_shape_def split: list.splits)

lemma high_rank_event_raises:
  assumes "event_shape d = Sh es" and "2 \<le> length es"
  shows "cf_convex_update_for_base_distribution d w k aux None sd = Inl TypeError"
  using assms
  by (simp add: cf_convex_update_for_base_distribution_def new_base_variables_def
        event_shape_tensor_def int_event_shape_large)

text \<open>
  C6 at a node whose event shape has rank two: the conversion of the shape vector to
  an integer (line 462) raises \<open>TypeError\<close>, as it does on every event of rank two
  or more, and no chain is created.
\<close>

theorem matrix_event_raises:
  "cf_convex_update_for_base_distribution matrix_leaf (1/2) 0 None None SeedNone = Inl TypeError"
  by (rule high_rank_event_raises [of _ "[2, 2]"]) (simp_all add: matrix_leaf_def)

section \<open>Properties of the generator\<close>

lemma generator_without_auxiliary:
  "posterior_generator node_fn 0 None sd p =
     (case p of Stop \<Rightarrow> Raise RuntimeError | Raise e \<Rightarrow> Raise e
      | Yield r d vs cont \<Rightarrow> Raise UnboundLocalError)"
  by (cases p) (simp_all add: posterior_generator_def variables_at_def)

lemma extract_raise: "extract_variables_from_coroutine_model smp (Raise e) sd = Inl e"
  by (simp add: extract_variables_from_coroutine_model_def)

lemma joint_without_auxiliary:
  "cf_surrogate_for_joint_distribution node_fn smp name ab (Yield r d vs cont) None 0 sd
     = Inl UnboundLocalError"
  by (simp add: cf_surrogate_for_joint_distribution_def generator_without_auxiliary extract_raise)

lemma default_registry_rules: "rules default_registry =
   [(Fresh 0, (\<lambda>d. isinstance d HalfNormal), half_normal_rule),
    (Fresh 1, (\<lambda>d. isinstance d Uniform), uniform_rule),
    (Fresh 2, (\<lambda>d. isinstance d Exponential), exponential_rule),
    (Fresh 3, (\<lambda>d. isinstance d Chi2), chi2_rule)]"
  by (simp add: default_registry_def empty_registry_def)

lemma substituted_joint:
  "as_substituted_distribution default_registry (Joint n ab p) = Joint n ab p"
  by (simp add: as_substituted_distribution_def default_registry_rules)

text \<open>
  C7. With \<open>k > 0\<close> auxiliary variables and no variables supplied, the first item the
  generator yields is root-tagged and is the noise \<open>Sample (Normal 0 0.1) k\<close> pushed
  through a chain of three gated residual layers of width \<open>k\<close>, all with gate count 0
  and initial residual fraction one half, listed in reverse order of construction
  (the layer without nonlinearity, built last, comes first); the chain is yielded
  beside the node as its variables.
\<close>

theorem auxiliary_node_is_root_pushforward:
  assumes "0 < k"
  shows "\<exists>resume.
     posterior_generator node_fn k None sd (Yield r d vs cont) =
       Yield True
         (Transformed None
            (SampleD None (Leaf None Normal [] [(''loc'', PConst 0), (''scale'', PConst (1/10))]) k)
            (Chain [HighwayFlow k (1/2) False 0 sd,
                    HighwayFlow k (1/2) True 0 sd,
                    HighwayFlow k (1/2) True 0 sd]))
         (Some (Chain [HighwayFlow k (1/2) False 0 sd,
                       HighwayFlow k (1/2) True 0 sd,
                       HighwayFlow k (1/2) True 0 sd]))
         resume"
  using assms
  by (simp add: posterior_generator_def new_auxiliary_variables_def auxiliary_noise_def
        Let_def numeral_2_eq_2)

theorem auxiliary_node_is_root_pushforward_witness:
  "(0::nat) < 2 \<and> (\<exists>resume.
     posterior_generator (\<lambda>d v a s. Inl TypeError) 2 None (SeedInt 7)
         (Yield False (vec_leaf ''x'' 3) None (\<lambda>v. Stop)) =
       Yield True
         (Transformed None
            (SampleD None (Leaf None Normal [] [(''loc'', PConst 0), (''scale'', PConst (1/10))]) 2)
            (Chain [HighwayFlow 2 (1/2) False 0 (SeedInt 7),
                    HighwayFlow 2 (1/2) True 0 (SeedInt 7),
                    HighwayFlow 2 (1/2) True 0 (SeedInt 7)]))
         (Some (Chain [HighwayFlow 2 (1/2) False 0 (SeedInt 7),
                       HighwayFlow 2 (1/2) True 0 (SeedInt 7),
                       HighwayFlow 2 (1/2) True 0 (SeedInt 7)]))
         resume)"
proof -
  have h: "(0::nat) < 2" by simp
  from auxiliary_node_is_root_pushforward [OF h] show ?thesis using h by blast
qed

text \<open>
  C8 at a root-tagged node without auxiliary variables: the generator raises before
  the node is dispatched, because its local variable for the auxiliary value was never
  assigned; no root-tagged surrogate is produced.
\<close>

theorem root_node_without_auxiliary_raises:
  "posterior_generator node_fn 0 None sd (Yield True d vs cont) = Raise UnboundLocalError"
  by (simp add: generator_without_auxiliary)

text \<open>
  C4 at a nested prior: the call is not rejected with a \<open>TypeError\<close>; the walker
  enters the inner model, whose generator raises \<open>UnboundLocalError\<close>.
\<close>

theorem nested_prior_is_not_a_type_error:
  "build_cf_surrogate_posterior 5 default_registry placeholder_sample nested_prior 2 (1/2)
     SeedNone = Inl UnboundLocalError"
  by (simp add: build_cf_surrogate_posterior_def nested_prior_def one_node_prior_def
        substituted_joint numeral_eq_Suc joint_without_auxiliary
        cf_surrogate_for_joint_distribution_def posterior_generator_def
        extract_variables_from_coroutine_model_def Let_def variables_at_def
        new_auxiliary_variables_def)

section \<open>Properties of the walker\<close>

lemma prog_induct [case_names Stop Raise Yield]:
  assumes "P Stop" and "\<And>e. P (Raise e)"
    and "\<And>r d b cont. (\<And>v. P (cont v)) \<Longrightarrow> P (Yield r d b cont)"
  shows "P p"
proof -
  have "True \<and> P p"
    by (rule dist_prog.induct [of "\<lambda>d. True" P]) (auto intro: assms)
  then show ?thesis ..
qed

lemma node_reuse:
  assumes "\<not> is_joint (substituted reg d)" and "0 < k"
  shows "cf_surrogate_for_distribution (Suc depth) reg smp w k d (Some b) 0 (Some (Tensor sh c)) sd
     = Inr (split_surrogate reg k sh c d b, b)"
  using assms
  by (cases "substituted reg d")
     (simp_all add: substituted_def cf_convex_update_for_base_distribution_def
        split_surrogate_def Let_def)

lemma walk_trace:
  assumes "0 < k"
    and "\<And>d b sd. \<not> is_joint (substituted reg d) \<Longrightarrow>
           node_fn d (Some b) (Some (Tensor sh c)) sd = Inr (split_surrogate reg k sh c d b, b)"
  shows "forward_all p vs = Some ws \<Longrightarrow>
     list_all (\<lambda>(r, d). \<not> is_joint (substituted reg d)) (nodes p ws) \<Longrightarrow>
     length (nodes p ws) \<le> length fl \<Longrightarrow> fl \<noteq> [] \<Longrightarrow>
     nodes (walk node_fn k (Some (pre @ fl)) (Bound (Some (Tensor sh c))) p sd (length pre)) vs
       = map2 (\<lambda>(r, d) b. (False, split_surrogate reg k sh c d b)) (nodes p ws) fl"
proof (induction p arbitrary: vs ws fl pre sd rule: prog_induct)
  case Stop
  then show ?case by simp
next
  case (Raise e)
  then show ?case by simp
next
  case (Yield r d b cont)
  from Yield.prems obtain b0 fl' where fl: "fl = b0 # fl'" by (cases fl) auto
  have nj: "\<not> is_joint (substituted reg d)" using Yield.prems(2) by simp
  have va: "variables_at (Some (pre @ fl)) (length pre) = Inr (Some b0)"
    by (simp add: variables_at_def fl)
  show ?case
  proof (cases vs)
    case Nil
    then show ?thesis using Yield.prems nj va assms(1)
      by (simp add: assms(2) fl)
  next
    case (Cons v rest)
    with Yield.prems(1) obtain w ws' where w: "forwarded_value d v = Inr w"
      and ws': "forward_all (cont w) rest = Some ws'" and ws: "ws = w # ws'"
      by (auto split: sum.splits)
    have n: "nodes (Yield r d b cont) ws = (r, d) # nodes (cont w) ws'"
      by (simp add: ws)
    show ?thesis
    proof (cases "fl' = []")
      case True
      with Yield.prems(3) n fl have "nodes (cont w) ws' = []" by simp
      then have st: "cont w = Stop \<or> (\<exists>e. cont w = Raise e)"
        by (cases "cont w") auto
      then show ?thesis using Cons w ws nj va True fl assms(1)
        by (auto simp: assms(2))
    next
      case False
      have ih: "nodes (walk node_fn k (Some ((pre @ [b0]) @ fl')) (Bound (Some (Tensor sh c)))
                    (cont w) (fst (split_seed sd)) (length (pre @ [b0]))) rest
         = map2 (\<lambda>(r, d) b. (False, split_surrogate reg k sh c d b)) (nodes (cont w) ws') fl'"
        apply (rule Yield.IH [OF ws'])
        using Yield.prems n fl False by simp_all
      show ?thesis using Cons w ws nj va fl ih assms(1)
        by (simp add: assms(2))
    qed
  qed
qed

lemma walk_completes:
  assumes "0 < k"
    and "\<And>d b sd. \<not> is_joint (substituted reg d) \<Longrightarrow>
           node_fn d (Some b) (Some (Tensor sh c)) sd = Inr (split_surrogate reg k sh c d b, b)"
  shows "forward_all p vs = Some ws \<Longrightarrow> completes p ws \<Longrightarrow> length vs = length ws \<Longrightarrow>
     list_all (\<lambda>(r, d). \<not> is_joint (substituted reg d)) (nodes p ws) \<Longrightarrow>
     length (nodes p ws) \<le> length fl \<Longrightarrow>
     completes (walk node_fn k (Some (pre @ fl)) (Bound (Some (Tensor sh c))) p sd (length pre)) vs"
proof (induction p arbitrary: vs ws fl pre sd rule: prog_induct)
  case Stop
  then show ?case by simp
next
  case (Raise e)
  then show ?case by simp
next
  case (Yield r d b cont)
  from Yield.prems(2) obtain w ws' where ws: "ws = w # ws'" and c': "completes (cont w) ws'"
    by (cases ws) auto
  from Yield.prems(3) ws obtain v rest where vs: "vs = v # rest" and len: "length rest = length ws'"
    by (cases vs) auto
  from Yield.prems(1) vs ws have fw: "forwarded_value d v = Inr w"
    and fa: "forward_all (cont w) rest = Some ws'"
    by (auto split: sum.splits)
  from Yield.prems(5) ws obtain b0 fl' where fl: "fl = b0 # fl'" by (cases fl) auto
  have nj: "\<not> is_joint (substituted reg d)" using Yield.prems(4) ws by simp
  have va: "variables_at (Some (pre @ fl)) (length pre) = Inr (Some b0)"
    by (simp add: variables_at_def fl)
  have ih: "completes (walk node_fn k (Some ((pre @ [b0]) @ fl')) (Bound (Some (Tensor sh c)))
                    (cont w) (fst (split_seed sd)) (length (pre @ [b0]))) rest"
    apply (rule Yield.IH [OF fa c' len])
    using Yield.prems ws fl by simp_all
  show ?case using vs fw nj va fl ih assms(1)
    by (simp add: assms(2))
qed

lemma extract_loop_extends:
  "extract_loop smp g sd (Some a) = Inr fl \<Longrightarrow> \<exists>rest. fl = a @ rest"
proof (induction g arbitrary: sd a rule: prog_induct)
  case Stop
  then show ?case by simp
next
  case (Raise e)
  then show ?case by simp
next
  case (Yield r d b cont)
  then show ?case
    by (cases b) (fastforce simp: Let_def)+
qed

lemma extract_first:
  assumes "extract_variables_from_coroutine_model smp (Yield r d (Some b) cont) sd = Inr fl"
  shows "\<exists>rest. fl = b # rest"
  using assms extract_loop_extends [of smp _ _ "[b]" fl]
  by (simp add: extract_variables_from_coroutine_model_def Let_def)

lemma build_joint:
  assumes "substituted reg prior = Joint name ab p"
  shows "build_cf_surrogate_posterior (Suc depth) reg smp prior k w sd =
     cf_surrogate_for_joint_distribution (top_node_fn depth reg smp w k) smp name ab p None k sd"
  using assms
  by (simp add: build_cf_surrogate_posterior_def substituted_def top_node_fn_def)

lemma generator_first:
  assumes "0 < k"
  shows "posterior_generator node_fn k flat sd (Yield r d vs cont) =
     Yield True
       (Transformed None (auxiliary_noise k)
          (if truthy flat then hd (the flat) else new_auxiliary_variables k sd))
       (if truthy flat then None else Some (new_auxiliary_variables k sd))
       (\<lambda>value_out. walk node_fn k flat (Bound (Some value_out)) (Yield r d vs cont) sd 1)"
  using assms by (simp add: posterior_generator_def Let_def)

lemma build_success:
  assumes b: "build_cf_surrogate_posterior (Suc depth) reg smp prior k w sd = Inr (sp, vars)"
    and j: "substituted reg prior = Joint name ab p"
    and k: "0 < k"
  shows "\<exists>rest. vars = VStruct (new_auxiliary_variables k sd # rest) \<and>
           sp = Joint name ab (posterior_generator (top_node_fn depth reg smp w k) k
                  (Some (new_auxiliary_variables k sd # rest)) SeedNone p) \<and>
           extract_variables_from_coroutine_model smp
             (posterior_generator (top_node_fn depth reg smp w k) k None sd p) sd
             = Inr (new_auxiliary_variables k sd # rest)"
proof -
  let ?nf = "top_node_fn depth reg smp w k"
  from b have b': "cf_surrogate_for_joint_distribution ?nf smp name ab p None k sd = Inr (sp, vars)"
    by (simp add: build_joint [OF j])
  then obtain fl where ex: "extract_variables_from_coroutine_model smp
             (posterior_generator ?nf k None sd p) sd = Inr fl"
    and jf: "joint_from_variables ?nf name ab p (model_unflatten fl) k SeedNone = Inr (sp, vars)"
    by (auto simp: cf_surrogate_for_joint_distribution_def split: sum.splits)
  have "\<exists>r d vs cont. p = Yield r d vs cont"
  proof (cases p)
    case Stop
    with ex show ?thesis
      by (simp add: posterior_generator_def extract_variables_from_coroutine_model_def)
  next
    case (Raise e)
    with ex show ?thesis
      by (simp add: posterior_generator_def extract_variables_from_coroutine_model_def)
  next
    case (Yield r d vs cont)
    then show ?thesis by blast
  qed
  then obtain r d vs cont where p: "p = Yield r d vs cont" by blast
  from ex obtain rest where fl: "fl = new_auxiliary_variables k sd # rest"
    unfolding p generator_first [OF k] using extract_first by fastforce
  from jf have "vars = VStruct fl \<and> sp = Joint name ab (posterior_generator ?nf k (Some fl) SeedNone p)"
    by (auto simp: joint_from_variables_def model_unflatten_def fl)
  with ex fl show ?thesis by blast
qed

lemma completes_length: "completes p ws \<Longrightarrow> length (nodes p ws) = length ws"
proof (induction p arbitrary: ws rule: prog_induct)
  case (Yield r d b cont)
  then show ?case by (cases ws) auto
qed simp_all

lemma auxiliary_event_shape:
  "event_shape (Transformed None (auxiliary_noise k) (new_auxiliary_variables k sd)) = Sh [k]"
  by (simp add: auxiliary_noise_def new_auxiliary_variables_def Let_def numeral_2_eq_2)

lemma extract_loop_run:
  "extract_loop smp g sd acc = Inr fl \<Longrightarrow>
     \<exists>vs. completes g vs \<and>
          map Some fl = map Some (case acc of None \<Rightarrow> [] | Some a \<Rightarrow> a) @ yielded_variables g vs"
proof (induction g arbitrary: sd acc fl rule: prog_induct)
  case Stop
  then show ?case by (cases acc) auto
next
  case (Raise e)
  then show ?case by simp
next
  case (Yield r d b cont)
  from Yield.prems obtain b0 where b: "b = Some b0" by (cases b) auto
  let ?v = "smp d (snd (split_seed sd))"
  let ?acc = "case acc of None \<Rightarrow> [b0] | Some fl0 \<Rightarrow> fl0 @ [b0]"
  from Yield.prems b have "extract_loop smp (cont ?v) (fst (split_seed sd)) (Some ?acc) = Inr fl"
    by (simp add: Let_def)
  from Yield.IH [OF this] obtain vs where c: "completes (cont ?v) vs"
    and m: "map Some fl = map Some ?acc @ yielded_variables (cont ?v) vs"
    by auto
  have "completes (Yield r d b cont) (?v # vs)" using c by simp
  moreover have "map Some fl = map Some (case acc of None \<Rightarrow> [] | Some a \<Rightarrow> a)
                     @ yielded_variables (Yield r d b cont) (?v # vs)"
    using m b by (cases acc) auto
  ultimately show ?case by blast
qed

lemma fixed_length_forward:
  "fixed_length p n \<Longrightarrow> forward_all p vs = Some ws \<Longrightarrow> length vs = n \<Longrightarrow>
     completes p ws \<and> length ws = n"
proof (induction p arbitrary: n vs ws rule: prog_induct)
  case (Yield r d b cont)
  from Yield.prems(1) obtain m where n: "n = Suc m" and f: "\<And>v. fixed_length (cont v) m"
    by (cases n) auto
  from Yield.prems(3) n obtain v rest where vs: "vs = v # rest" and l: "length rest = m"
    by (cases vs) auto
  from Yield.prems(2) vs obtain w ws' where w: "forwarded_value d v = Inr w"
    and ws': "forward_all (cont w) rest = Some ws'" and ws: "ws = w # ws'"
    by (auto split: sum.splits)
  from Yield.IH [OF f ws' l] show ?case using ws n by simp
qed simp_all

lemma completes_yields_length:
  "completes g vs \<Longrightarrow> length (yielded_variables g vs) = length vs"
proof (induction g arbitrary: vs rule: prog_induct)
  case (Yield r d b cont)
  then show ?case by (cases vs) auto
qed simp_all

lemma walk_completes_length:
  "completes (walk nf k flat aux p sd i) vs \<Longrightarrow> fixed_length p n \<Longrightarrow> length vs = n"
proof (induction p arbitrary: vs n sd i rule: prog_induct)
  case (Yield r d b cont)
  from Yield.prems(2) obtain m where n: "n = Suc m" and f: "\<And>v. fixed_length (cont v) m"
    by (cases n) auto
  from Yield.prems(1) obtain v rest w where vs: "vs = v # rest"
    and c: "completes (walk nf k flat aux (cont w) (fst (split_seed sd)) (Suc i)) rest"
    by (cases vs) (auto split: sum.splits local_var.splits list.splits)
  from Yield.IH [OF c f] show ?case using vs n by simp
qed simp_all

lemma harvest_length:
  assumes ex: "extract_variables_from_coroutine_model smp
                 (posterior_generator nf k None sd p) sd = Inr fl"
    and k: "0 < k" and fx: "fixed_length p n"
  shows "length fl = Suc n"
proof -
  let ?g = "posterior_generator nf k None sd p"
  from extract_loop_run [of smp ?g sd None fl] ex obtain vs where
    c: "completes ?g vs" and y: "map Some fl = yielded_variables ?g vs"
    by (auto simp: extract_variables_from_coroutine_model_def)
  from c obtain r d b cont where p: "p = Yield r d b cont"
    by (cases p) (simp_all add: posterior_generator_def)
  from c obtain v rest where vs: "vs = v # rest"
    and cw: "completes (walk nf k None (Bound (Some v)) p sd 1) rest"
    unfolding p generator_first [OF k] by (cases vs) auto
  have "length rest = n" using cw fx by (rule walk_completes_length)
  moreover have "length fl = length vs"
    using completes_yields_length [OF c] y by (metis length_map)
  ultimately show ?thesis using vs by simp
qed

text \<open>
  C1, as amended. With \<open>k > 0\<close> auxiliary variables, when the construction succeeds on
  a prior of \<open>n\<close> sequential base nodes, it has harvested \<open>n + 1\<close> sets of variables,
  and on every run the surrogate yields \<open>n + 1\<close> nodes and then ends: first the
  root-tagged auxiliary node, of event shape \<open>[k]\<close>, then, in the prior's order and
  without root tag, one node per prior node, which is the split into (node part,
  auxiliary part) of the transformed joint of the substituted prior node and the
  auxiliary value, over that node's own variables.
\<close>

theorem surrogate_nodes_with_auxiliary:
  assumes b: "build_cf_surrogate_posterior (Suc (Suc depth)) reg smp prior k w sd = Inr (sp, vars)"
    and j: "substituted reg prior = Joint name ab p"
    and k: "0 < k"
    and fx: "fixed_length p n"
    and fa: "forward_all p vs = Some ws"
    and len: "length vs = n"
    and base: "list_all (\<lambda>(r, d). \<not> is_joint (substituted reg d)) (nodes p ws)"
  shows "\<exists>prog fl.
           sp = Joint name ab prog \<and> vars = VStruct fl \<and> length fl = Suc n
           \<and> nodes prog (Tensor sh c # vs) =
               (True, Transformed None (auxiliary_noise k) (new_auxiliary_variables k sd))
               # map2 (\<lambda>(r, d) b. (False, split_surrogate reg k sh c d b)) (nodes p ws) (tl fl)
           \<and> completes prog (Tensor sh c # vs)
           \<and> length (nodes prog (Tensor sh c # vs)) = Suc n
           \<and> event_shape (Transformed None (auxiliary_noise k) (new_auxiliary_variables k sd))
               = Sh [k]"
proof -
  let ?nf = "top_node_fn (Suc depth) reg smp w k"
  let ?a = "new_auxiliary_variables k sd"
  from build_success [OF b j k] obtain rest where
    vars: "vars = VStruct (?a # rest)" and
    sp: "sp = Joint name ab (posterior_generator ?nf k (Some (?a # rest)) SeedNone p)" and
    ex: "extract_variables_from_coroutine_model smp (posterior_generator ?nf k None sd p) sd
           = Inr (?a # rest)"
    by blast
  have lfl: "length (?a # rest) = Suc n"
    using ex k fx by (rule harvest_length)
  from fixed_length_forward [OF fx fa len] have co: "completes p ws" and lws: "length ws = n"
    by simp_all
  have len': "length vs = length ws" using len lws by simp
  have nf: "\<And>d b sd. \<not> is_joint (substituted reg d) \<Longrightarrow>
           ?nf d (Some b) (Some (Tensor sh c)) sd = Inr (split_surrogate reg k sh c d b, b)"
    unfolding top_node_fn_def using node_reuse [OF _ k] by blast
  from ex obtain r d vs0 cont where py: "p = Yield r d vs0 cont"
    by (cases p) (simp_all add: posterior_generator_def
        extract_variables_from_coroutine_model_def)
  have nl: "length (nodes p ws) = length ws" using co by (rule completes_length)
  have le: "length ws \<le> length rest" using lfl lws by simp
  have ne: "rest \<noteq> []" using le nl py by auto
  have tr: "nodes (walk ?nf k (Some ([?a] @ rest)) (Bound (Some (Tensor sh c))) p SeedNone
                (length [?a])) vs
       = map2 (\<lambda>(r, d) b. (False, split_surrogate reg k sh c d b)) (nodes p ws) rest"
    by (rule walk_trace [where node_fn="?nf" and reg=reg and sh=sh and c=c, OF k nf fa base _ ne])
       (simp_all add: nl le)
  have cp: "completes (walk ?nf k (Some ([?a] @ rest)) (Bound (Some (Tensor sh c))) p SeedNone
                (length [?a])) vs"
    by (rule walk_completes [where node_fn="?nf" and reg=reg and sh=sh and c=c,
          OF k nf fa co len' base])
       (simp_all add: nl le)
  have g: "posterior_generator ?nf k (Some (?a # rest)) SeedNone p =
       Yield True (Transformed None (auxiliary_noise k) ?a) None
         (\<lambda>value_out. walk ?nf k (Some (?a # rest)) (Bound (Some value_out)) p SeedNone 1)"
    unfolding py generator_first [OF k] by simp
  have n: "nodes (posterior_generator ?nf k (Some (?a # rest)) SeedNone p) (Tensor sh c # vs) =
                (True, Transformed None (auxiliary_noise k) ?a)
                # map2 (\<lambda>(r, d) b. (False, split_surrogate reg k sh c d b)) (nodes p ws)
                    (tl (?a # rest))"
    using tr unfolding g by simp
  have c2: "completes (posterior_generator ?nf k (Some (?a # rest)) SeedNone p) (Tensor sh c # vs)"
    using cp unfolding g by simp
  have ln: "length (nodes (posterior_generator ?nf k (Some (?a # rest)) SeedNone p)
              (Tensor sh c # vs)) = Suc n"
    unfolding n using nl le lws by simp
  from sp vars lfl n c2 ln auxiliary_event_shape show ?thesis by blast
qed

lemma substituted_default_joint [simp]:
  "substituted default_registry (Joint n ab p) = Joint n ab p"
  by (simp add: substituted_def as_substituted_distribution_def default_registry_rules)

lemma substituted_vec_leaf [simp]:
  "substituted default_registry (vec_leaf name n) = vec_leaf name n"
  by (simp add: substituted_def as_substituted_distribution_def default_registry_rules vec_leaf_def)

lemma two_node_harvest:
  "extract_variables_from_coroutine_model placeholder_sample
      (posterior_generator (top_node_fn (Suc 0) default_registry placeholder_sample (1/2) 2) 2
             None SeedNone two_node_program) SeedNone
      = Inr two_node_variables"
  by (simp add: posterior_generator_def extract_variables_from_coroutine_model_def Let_def
        variables_at_def top_node_fn_def split_seed_def two_node_variables_def two_node_program_def
        new_auxiliary_variables_def auxiliary_noise_def placeholder_sample_def vec_leaf_def
        as_substituted_distribution_def default_registry_rules
        cf_convex_update_for_base_distribution_def new_base_variables_def
        event_shape_tensor_def int_event_shape_def base_chain_def plus_aux_def numeral_2_eq_2)

lemma two_node_build:
  "build_cf_surrogate_posterior (Suc (Suc 0)) default_registry placeholder_sample two_node_prior
     2 (1/2) SeedNone =
   Inr (Joint (Some ''prior'') True two_node_surrogate_program, VStruct two_node_variables)"
proof -
  have s: "substituted default_registry two_node_prior =
      Joint (Some ''prior'') True two_node_program"
    by (simp add: two_node_prior_def)
  show ?thesis
    unfolding build_joint [OF s] cf_surrogate_for_joint_distribution_def
    by (simp add: two_node_harvest joint_from_variables_def model_unflatten_def
          two_node_variables_def two_node_surrogate_program_def)
qed

theorem surrogate_nodes_with_auxiliary_witness:
  "build_cf_surrogate_posterior (Suc (Suc 0)) default_registry placeholder_sample two_node_prior
       2 (1/2) SeedNone
     = Inr (Joint (Some ''prior'') True two_node_surrogate_program, VStruct two_node_variables)
   \<and> substituted default_registry two_node_prior = Joint (Some ''prior'') True two_node_program
   \<and> (0::nat) < 2
   \<and> fixed_length two_node_program 2
   \<and> forward_all two_node_program
        [VList [Tensor [3] 0, Tensor [2] 0], VList [Tensor [4] 0, Tensor [2] 0]]
       = Some [Tensor [3] 0, Tensor [4] 0]
   \<and> list_all (\<lambda>(r, d). \<not> is_joint (substituted default_registry d))
        (nodes two_node_program [Tensor [3] 0, Tensor [4] 0])
   \<and> nodes two_node_surrogate_program
        [Tensor [2] 0, VList [Tensor [3] 0, Tensor [2] 0], VList [Tensor [4] 0, Tensor [2] 0]] =
        [(True, Transformed None (auxiliary_noise 2) (new_auxiliary_variables 2 SeedNone)),
         (False, split_surrogate default_registry 2 [2] 0 (vec_leaf ''x'' 3)
                   (base_chain [3] (1/2) 2 (SeedSplit SeedNone 1))),
         (False, split_surrogate default_registry 2 [2] 0 (vec_leaf ''y'' 4)
                   (base_chain [4] (1/2) 2 (SeedSplit (SeedSplit SeedNone 0) 1)))]
   \<and> completes two_node_surrogate_program
        [Tensor [2] 0, VList [Tensor [3] 0, Tensor [2] 0], VList [Tensor [4] 0, Tensor [2] 0]]"
proof -
  let ?vs = "[VList [Tensor [3] 0, Tensor [2] 0], VList [Tensor [4] 0, Tensor [2] 0]]"
  let ?ws = "[Tensor [3] 0, Tensor [4] 0]"
  note h1 = two_node_build
  have h2: "substituted default_registry two_node_prior
              = Joint (Some ''prior'') True two_node_program"
    by (simp add: two_node_prior_def)
  have h3: "(0::nat) < 2" by simp
  have h4: "fixed_length two_node_program 2"
    by (simp add: two_node_program_def numeral_2_eq_2)
  have h5: "forward_all two_node_program ?vs = Some ?ws"
    by (simp add: two_node_program_def vec_leaf_def)
  have h6: "length ?vs = 2" by simp
  have h7: "list_all (\<lambda>(r, d). \<not> is_joint (substituted default_registry d))
        (nodes two_node_program ?ws)"
    by (simp add: two_node_program_def) (simp add: vec_leaf_def)
  from surrogate_nodes_with_auxiliary [OF h1 h2 h3 h4 h5 h6 h7, of "[2]" 0]
  have "nodes two_node_surrogate_program (Tensor [2] 0 # ?vs) =
        (True, Transformed None (auxiliary_noise 2) (new_auxiliary_variables 2 SeedNone))
        # map2 (\<lambda>(r, d) b. (False, split_surrogate default_registry 2 [2] 0 d b))
            (nodes two_node_program ?ws) (tl two_node_variables)
     \<and> completes two_node_surrogate_program (Tensor [2] 0 # ?vs)"
    by auto
  then show ?thesis using h1 h2 h3 h4 h5 h7
    by (simp add: two_node_program_def two_node_variables_def)
qed

lemma one_node_build:
  "build_cf_surrogate_posterior (Suc (Suc 0)) default_registry placeholder_sample one_node_prior
     2 (1/2) SeedNone =
   Inr (Joint (Some ''prior'') True
          (posterior_generator (top_node_fn (Suc 0) default_registry placeholder_sample (1/2) 2) 2
             (Some one_node_variables) SeedNone (Yield False (vec_leaf ''x'' 3) None (\<lambda>v. Stop))),
        VStruct one_node_variables)"
proof -
  have s: "substituted default_registry one_node_prior =
      Joint (Some ''prior'') True (Yield False (vec_leaf ''x'' 3) None (\<lambda>v. Stop))"
    by (simp add: one_node_prior_def)
  have e: "event_shape (vec_leaf ''x'' 3) = Sh [3]" by (simp add: vec_leaf_def)
  have nb: "cf_surrogate_for_distribution (Suc 0) default_registry placeholder_sample (1/2) 2
       (vec_leaf ''x'' 3) None 0 (Some (Tensor [2] 0)) (SeedSplit SeedNone 1)
       = Inr (split_surrogate default_registry 2 [2] 0 (vec_leaf ''x'' 3)
                (base_chain [3] (1/2) 2 (SeedSplit SeedNone 1)),
              base_chain [3] (1/2) 2 (SeedSplit SeedNone 1))"
    using substituted_vec_leaf [of "''x''" 3]
    by (simp add: substituted_def vec_leaf_def cf_convex_update_for_base_distribution_def
          new_base_variables_def event_shape_tensor_def int_event_shape_def base_chain_def
          split_surrogate_def Let_def numeral_2_eq_2 plus_aux_def)
  have sm: "placeholder_sample (Transformed None (auxiliary_noise 2) (new_auxiliary_variables 2 SeedNone)) sd
      = Tensor [2] 0" for sd
    using auxiliary_event_shape [of 2 SeedNone] by (simp add: placeholder_sample_def)
  have ex: "extract_variables_from_coroutine_model placeholder_sample
      (posterior_generator (top_node_fn (Suc 0) default_registry placeholder_sample (1/2) 2) 2
             None SeedNone (Yield False (vec_leaf ''x'' 3) None (\<lambda>v. Stop))) SeedNone
      = Inr one_node_variables"
    by (simp add: posterior_generator_def extract_variables_from_coroutine_model_def Let_def
        variables_at_def top_node_fn_def split_seed_def one_node_variables_def
        new_auxiliary_variables_def auxiliary_noise_def placeholder_sample_def vec_leaf_def
        as_substituted_distribution_def default_registry_rules
        cf_convex_update_for_base_distribution_def new_base_variables_def
        event_shape_tensor_def int_event_shape_def base_chain_def plus_aux_def numeral_2_eq_2)
  show ?thesis
    unfolding build_joint [OF s] cf_surrogate_for_joint_distribution_def
    by (simp add: ex joint_from_variables_def model_unflatten_def one_node_variables_def)
qed

text \<open>
  C1 as stated fails: without auxiliary variables the construction raises on a
  one-node prior, and with two auxiliary variables the node that follows the auxiliary
  node has a two-part event, not the event shape of the prior's node.
\<close>

theorem surrogate_without_auxiliary_raises:
  "build_cf_surrogate_posterior (Suc (Suc 0)) default_registry placeholder_sample one_node_prior
       0 (1/2) SeedNone = Inl UnboundLocalError
   \<and> event_shape one_node_prior = Parts [Sh [3]]
   \<and> map_sum id (event_shape \<circ> fst)
        (build_cf_surrogate_posterior (Suc (Suc 0)) default_registry placeholder_sample
           one_node_prior 2 (1/2) SeedNone)
       = Inr (Parts [Sh [2], Parts [Sh [3], Sh [2]]])"
proof -
  have a: "build_cf_surrogate_posterior (Suc (Suc 0)) default_registry placeholder_sample
       one_node_prior 0 (1/2) SeedNone = Inl UnboundLocalError"
    unfolding one_node_prior_def
    by (simp add: build_joint cf_surrogate_for_joint_distribution_def
          posterior_generator_def variables_at_def extract_variables_from_coroutine_model_def)
  have b: "event_shape one_node_prior = Parts [Sh [3]]"
    by (simp add: one_node_prior_def vec_leaf_def)
  have c: "event_shape (Joint (Some ''prior'') True
          (posterior_generator (top_node_fn (Suc 0) default_registry placeholder_sample (1/2) 2) 2
             (Some one_node_variables) SeedNone (Yield False (vec_leaf ''x'' 3) None (\<lambda>v. Stop))))
      = Parts [Sh [2], Parts [Sh [3], Sh [2]]]"
    by (simp add: posterior_generator_def Let_def
        variables_at_def top_node_fn_def split_seed_def one_node_variables_def
        new_auxiliary_variables_def auxiliary_noise_def vec_leaf_def
        as_substituted_distribution_def default_registry_rules
        cf_convex_update_for_base_distribution_def base_chain_def plus_aux_def numeral_2_eq_2)
  show ?thesis using a b c by (simp add: one_node_build)
qed

section \<open>Harvest and reuse\<close>

lemma extract_nonempty:
  assumes "extract_variables_from_coroutine_model smp g sd = Inr fl"
  shows "fl \<noteq> []"
proof (cases g)
  case Stop
  with assms show ?thesis by (simp add: extract_variables_from_coroutine_model_def)
next
  case (Raise e)
  with assms show ?thesis by (simp add: extract_variables_from_coroutine_model_def)
next
  case (Yield r d b cont)
  show ?thesis
  proof (cases b)
    case None
    with assms Yield show ?thesis by (simp add: extract_variables_from_coroutine_model_def)
  next
    case (Some b0)
    with assms Yield extract_first [of smp r d b0 cont sd fl] show ?thesis by auto
  qed
qed

lemma joint_from_harvest:
  "fl \<noteq> [] \<Longrightarrow> joint_from_variables node_fn name ab p (VStruct fl) k sd =
     Inr (Joint name ab (posterior_generator node_fn k (Some fl) sd p), VStruct fl)"
  by (simp add: joint_from_variables_def)

text \<open>
  C3, as amended. The joint builder compares no structures: without variables it
  fails exactly when the harvest pass fails, with the error of the harvest pass, and
  otherwise returns the joint distribution over the generator that reuses the
  harvested variables, whatever the structure of that distribution is.
\<close>

theorem assembly_fails_only_with_harvest:
  "cf_surrogate_for_joint_distribution node_fn smp name ab p None k sd =
     map_sum id
       (\<lambda>fl. (Joint name ab (posterior_generator node_fn k (Some fl) SeedNone p), VStruct fl))
       (extract_variables_from_coroutine_model smp
          (posterior_generator node_fn k None sd p) sd)"
proof (cases "extract_variables_from_coroutine_model smp
          (posterior_generator node_fn k None sd p) sd")
  case (Inl e)
  then show ?thesis by (simp add: cf_surrogate_for_joint_distribution_def)
next
  case (Inr fl)
  then have "fl \<noteq> []" by (rule extract_nonempty)
  with Inr show ?thesis
    by (simp add: cf_surrogate_for_joint_distribution_def model_unflatten_def joint_from_harvest)
qed

lemma walk_reuse_yields_none:
  "fl \<noteq> [] \<Longrightarrow>
     list_all (\<lambda>b. b = None) (yielded_variables (walk node_fn k (Some fl) aux p sd i) vs)"
proof (induction p arbitrary: vs sd i rule: prog_induct)
  case (Yield r d b cont)
  show ?case
  proof (cases vs)
    case Nil
    then show ?thesis using Yield.prems
      by (auto split: sum.splits local_var.splits)
  next
    case (Cons v rest)
    then show ?thesis using Yield.prems Yield.IH
      by (auto split: sum.splits local_var.splits)
  qed
qed simp_all

lemma generator_reuse_yields_none:
  assumes "fl \<noteq> []"
  shows "list_all (\<lambda>b. b = None)
           (yielded_variables (posterior_generator node_fn k (Some fl) sd p) vs)"
proof (cases p)
  case (Yield r d b cont)
  show ?thesis
  proof (cases vs)
    case Nil
    then show ?thesis using assms Yield
        walk_reuse_yields_none [OF assms, of node_fn k Unbound p sd 0 vs]
      by (auto simp: posterior_generator_def Let_def)
  next
    case (Cons v rest)
    then show ?thesis using assms Yield
        walk_reuse_yields_none [OF assms, of node_fn k Unbound p sd 0 vs]
        walk_reuse_yields_none [OF assms, of node_fn k "Bound (Some v)" p sd 1 rest]
      by (auto simp: posterior_generator_def Let_def)
  qed
qed (simp_all add: posterior_generator_def)

lemma one_node_harvest:
  "extract_variables_from_coroutine_model placeholder_sample
      (posterior_generator (top_node_fn (Suc 0) default_registry placeholder_sample (1/2) 2) 2
             None SeedNone one_node_program) SeedNone
      = Inr one_node_variables"
  by (simp add: posterior_generator_def extract_variables_from_coroutine_model_def Let_def
        variables_at_def top_node_fn_def split_seed_def one_node_variables_def one_node_program_def
        new_auxiliary_variables_def auxiliary_noise_def placeholder_sample_def vec_leaf_def
        as_substituted_distribution_def default_registry_rules
        cf_convex_update_for_base_distribution_def new_base_variables_def
        event_shape_tensor_def int_event_shape_def base_chain_def plus_aux_def numeral_2_eq_2)

lemma one_node_surrogate_event_shape:
  "event_shape (Joint (Some ''prior'') True one_node_surrogate_program)
      = Parts [Sh [2], Parts [Sh [3], Sh [2]]]"
  by (simp add: posterior_generator_def Let_def one_node_surrogate_program_def
        one_node_program_def
        variables_at_def top_node_fn_def split_seed_def one_node_variables_def
        new_auxiliary_variables_def auxiliary_noise_def vec_leaf_def
        as_substituted_distribution_def default_registry_rules
        cf_convex_update_for_base_distribution_def base_chain_def plus_aux_def numeral_2_eq_2)

text \<open>
  C3 as stated fails: with two auxiliary variables the surrogate of a one-node prior
  has a structure of two entries, the prior's has one, and the construction returns
  the surrogate without an error.
\<close>

theorem structure_mismatch_is_not_reported:
  "event_shape one_node_prior = Parts [Sh [3]]
   \<and> map_sum id (event_shape \<circ> fst)
        (build_cf_surrogate_posterior (Suc (Suc 0)) default_registry placeholder_sample
           one_node_prior 2 (1/2) SeedNone)
       = Inr (Parts [Sh [2], Parts [Sh [3], Sh [2]]])"
proof -
  have a: "event_shape one_node_prior = Parts [Sh [3]]"
    by (simp add: one_node_prior_def vec_leaf_def)
  have b: "build_cf_surrogate_posterior (Suc (Suc 0)) default_registry placeholder_sample
       one_node_prior 2 (1/2) SeedNone
     = Inr (Joint (Some ''prior'') True one_node_surrogate_program, VStruct one_node_variables)"
    by (simp add: one_node_build one_node_surrogate_program_def one_node_program_def)
  show ?thesis unfolding b using a one_node_surrogate_event_shape by simp
qed

lemma base_builder_reuse:
  "cf_convex_update_for_base_distribution d w kb aux (Some v) sd =
     (if kb > 0 then
        (case aux of
           Some (Tensor sh c) \<Rightarrow>
             Inr (Transformed None
                    (Transformed None
                       (Blockwise None
                          [BatchBroadcast None d (if length sh > 1 then [hd sh] else []),
                           Independent None (Deterministic None (Tensor sh c)) 1])
                       v)
                    (Split [-1, int kb]),
                  v)
         | _ \<Rightarrow> Inl AttributeError)
      else Inr (Transformed None d v, v))"
  by (simp add: cf_convex_update_for_base_distribution_def Let_def
        split: option.splits val.splits)

lemma walk_reuse_from:
  "fl \<noteq> [] \<Longrightarrow>
     walk nf k (Some fl) aux p sd i = walk (reuse_from fl nf) k (Some fl) aux p sd i"
proof (induction p arbitrary: sd i aux rule: prog_induct)
  case (Yield r d b cont)
  have ih: "walk nf k (Some fl) aux' (cont v) (fst (split_seed sd)) (Suc i)
          = walk (reuse_from fl nf) k (Some fl) aux' (cont v) (fst (split_seed sd)) (Suc i)"
    for v aux'
    by (rule Yield.IH) (rule Yield.prems)
  show ?case
  proof (cases "i < length fl")
    case True
    then have "variables_at (Some fl) i = Inr (Some (fl ! i))" and "fl ! i \<in> set fl"
      using Yield.prems by (simp_all add: variables_at_def)
    then show ?thesis
      by (simp add: reuse_from_def ih cong: sum.case_cong local_var.case_cong prod.case_cong)
  next
    case False
    then have "variables_at (Some fl) i = Inl IndexError"
      using Yield.prems by (simp add: variables_at_def)
    then show ?thesis by simp
  qed
qed simp_all

lemma generator_reuse_from:
  assumes "fl \<noteq> []"
  shows "posterior_generator nf k (Some fl) sd p
           = posterior_generator (reuse_from fl nf) k (Some fl) sd p"
proof -
  have w: "walk nf k (Some fl) aux p sd i = walk (reuse_from fl nf) k (Some fl) aux p sd i"
    for aux i
    using assms by (rule walk_reuse_from)
  show ?thesis
    by (simp only: posterior_generator_def w)
qed

lemma reuse_trace:
  assumes k: "0 < k"
    and fx: "fixed_length p n"
    and fa: "forward_all p vs = Some ws"
    and len: "length vs = n"
    and base: "list_all (\<lambda>(r, d). \<not> is_joint (substituted reg d)) (nodes p ws)"
    and lfl: "length fl = Suc n"
    and n: "0 < n"
  shows "nodes (posterior_generator (top_node_fn (Suc depth) reg smp w k) k (Some fl) sd p)
           (Tensor sh c # vs) =
         (True, Transformed None (auxiliary_noise k) (fl ! 0))
         # map2 (\<lambda>(r, d) b. (False, split_surrogate reg k sh c d b)) (nodes p ws) (tl fl)"
proof -
  let ?nf = "top_node_fn (Suc depth) reg smp w k"
  from lfl obtain a rest where fl: "fl = a # rest" by (cases fl) auto
  from fixed_length_forward [OF fx fa len] have co: "completes p ws" and lws: "length ws = n"
    by simp_all
  have nf: "\<And>d b sd. \<not> is_joint (substituted reg d) \<Longrightarrow>
           ?nf d (Some b) (Some (Tensor sh c)) sd = Inr (split_surrogate reg k sh c d b, b)"
    unfolding top_node_fn_def using node_reuse [OF _ k] by blast
  from fx n obtain r d vs0 cont where py: "p = Yield r d vs0 cont"
    by (cases p) auto
  have nl: "length (nodes p ws) = length ws" using co by (rule completes_length)
  have le: "length ws \<le> length rest" using lfl lws fl by simp
  have ne: "rest \<noteq> []" using le nl py by auto
  have tr: "nodes (walk ?nf k (Some ([a] @ rest)) (Bound (Some (Tensor sh c))) p sd
                (length [a])) vs
       = map2 (\<lambda>(r, d) b. (False, split_surrogate reg k sh c d b)) (nodes p ws) rest"
    by (rule walk_trace [where node_fn="?nf" and reg=reg and sh=sh and c=c, OF k nf fa base _ ne])
       (simp_all add: nl le)
  have g: "posterior_generator ?nf k (Some (a # rest)) sd p =
       Yield True (Transformed None (auxiliary_noise k) a) None
         (\<lambda>value_out. walk ?nf k (Some (a # rest)) (Bound (Some value_out)) p sd 1)"
    unfolding py generator_first [OF k] by simp
  show ?thesis using tr unfolding fl g by simp
qed

lemma generator_k0:
  "posterior_generator nf 0 flat sd p =
     (case p of Stop \<Rightarrow> Raise RuntimeError | Raise e \<Rightarrow> Raise e
      | Yield r d vs cont \<Rightarrow>
          (case variables_at flat 0 of Inl e \<Rightarrow> Raise e | Inr x \<Rightarrow> Raise UnboundLocalError))"
  by (cases p) (simp_all add: posterior_generator_def split: sum.splits)

lemma build_needs_auxiliary:
  assumes b: "build_cf_surrogate_posterior (Suc depth) reg smp prior k w sd = Inr (sp, vars)"
    and j: "substituted reg prior = Joint name ab p"
  shows "0 < k"
proof (rule ccontr)
  assume "\<not> 0 < k"
  then have k: "k = 0" by simp
  have "extract_variables_from_coroutine_model smp
          (posterior_generator (top_node_fn depth reg smp w 0) 0 None sd p) sd = Inl e
        \<Longrightarrow> False" for e
    using b unfolding build_joint [OF j] k
    by (simp add: cf_surrogate_for_joint_distribution_def)
  moreover have "\<exists>e. extract_variables_from_coroutine_model smp
          (posterior_generator (top_node_fn depth reg smp w 0) 0 None sd p) sd = Inl e"
    by (cases p)
       (simp_all add: generator_k0 variables_at_def extract_variables_from_coroutine_model_def)
  ultimately show False by blast
qed

text \<open>
  C2. Whenever the construction of a joint surrogate succeeds: the finished surrogate
  carries exactly the sets of variables \<open>fl\<close> yielded at the construction sites of
  the one harvest run; supplying \<open>fl\<close> to the joint builder returns it unchanged
  without a harvest pass; the generator over \<open>fl\<close> calls the node builder only with
  variables from \<open>fl\<close>, never without variables, and every run of it yields bare
  nodes; on a prior of \<open>n\<close> sequential base nodes \<open>fl\<close> has \<open>n + 1\<close> entries, the
  auxiliary node is built over the first and the node at place \<open>i\<close> over the entry
  at place \<open>i\<close>; and the base builder, given variables, puts them into the
  transformed distribution as they are and returns them.
\<close>

theorem parameters_created_once:
  assumes b: "build_cf_surrogate_posterior (Suc (Suc depth)) reg smp prior k w sd = Inr (sp, vars)"
    and j: "substituted reg prior = Joint name ab p"
  shows "\<exists>fl. vars = VStruct fl \<and> fl \<noteq> []
       \<and> sp = Joint name ab
            (posterior_generator (top_node_fn (Suc depth) reg smp w k) k (Some fl) SeedNone p)
       \<and> (\<exists>hs. completes
                  (posterior_generator (top_node_fn (Suc depth) reg smp w k) k None sd p) hs
                \<and> yielded_variables
                    (posterior_generator (top_node_fn (Suc depth) reg smp w k) k None sd p) hs
                    = map Some fl)
       \<and> cf_surrogate_for_joint_distribution (top_node_fn (Suc depth) reg smp w k) smp name ab p
            (Some (VStruct fl)) k sd' =
           Inr (Joint name ab
                  (posterior_generator (top_node_fn (Suc depth) reg smp w k) k (Some fl) sd' p),
                VStruct fl)
       \<and> posterior_generator (top_node_fn (Suc depth) reg smp w k) k (Some fl) sd' p =
           posterior_generator (reuse_from fl (top_node_fn (Suc depth) reg smp w k)) k (Some fl)
             sd' p
       \<and> list_all (\<lambda>b. b = None)
            (yielded_variables
               (posterior_generator (top_node_fn (Suc depth) reg smp w k) k (Some fl) sd' p) vs')
       \<and> (fixed_length p n \<and> forward_all p vs = Some ws \<and> length vs = n
            \<and> list_all (\<lambda>(r, d). \<not> is_joint (substituted reg d)) (nodes p ws)
          \<longrightarrow> length fl = Suc n
            \<and> nodes (posterior_generator (top_node_fn (Suc depth) reg smp w k) k (Some fl) sd' p)
                 (Tensor sh c # vs) =
               (True, Transformed None (auxiliary_noise k) (fl ! 0))
               # map2 (\<lambda>(r, d) b. (False, split_surrogate reg k sh c d b)) (nodes p ws) (tl fl))
       \<and> cf_convex_update_for_base_distribution d' w' kb aux (Some v) sd'' =
           (if kb > 0 then
              (case aux of
                 Some (Tensor sh' c') \<Rightarrow>
                   Inr (Transformed None
                          (Transformed None
                             (Blockwise None
                                [BatchBroadcast None d' (if length sh' > 1 then [hd sh'] else []),
                                 Independent None (Deterministic None (Tensor sh' c')) 1])
                             v)
                          (Split [-1, int kb]),
                        v)
               | _ \<Rightarrow> Inl AttributeError)
            else Inr (Transformed None d' v, v))"
proof -
  let ?nf = "top_node_fn (Suc depth) reg smp w k"
  let ?a = "new_auxiliary_variables k sd"
  have k: "0 < k" using b j by (rule build_needs_auxiliary)
  from build_success [OF b j k] obtain rest where
    vars: "vars = VStruct (?a # rest)" and
    sp: "sp = Joint name ab (posterior_generator ?nf k (Some (?a # rest)) SeedNone p)" and
    ex: "extract_variables_from_coroutine_model smp (posterior_generator ?nf k None sd p) sd
           = Inr (?a # rest)"
    by blast
  let ?fl = "?a # rest"
  have ne: "?fl \<noteq> []" by simp
  from ex obtain r d vs0 cont where py: "p = Yield r d vs0 cont"
    by (cases p) (simp_all add: posterior_generator_def
        extract_variables_from_coroutine_model_def)
  have h: "\<exists>hs. completes (posterior_generator ?nf k None sd p) hs \<and>
                yielded_variables (posterior_generator ?nf k None sd p) hs = map Some ?fl"
    using extract_loop_run [of smp _ sd None ?fl] ex
    by (fastforce simp: extract_variables_from_coroutine_model_def)
  have again: "cf_surrogate_for_joint_distribution ?nf smp name ab p (Some (VStruct ?fl)) k sd' =
           Inr (Joint name ab (posterior_generator ?nf k (Some ?fl) sd' p), VStruct ?fl)"
    by (simp add: cf_surrogate_for_joint_distribution_def joint_from_harvest)
  note only = generator_reuse_from [OF ne, of ?nf k sd' p]
  note none = generator_reuse_yields_none [OF ne, of ?nf k sd' p vs']
  note builder = base_builder_reuse [of d' w' kb aux v sd'']
  have pos: "length ?fl = Suc n
            \<and> nodes (posterior_generator ?nf k (Some ?fl) sd' p) (Tensor sh c # vs) =
               (True, Transformed None (auxiliary_noise k) (?fl ! 0))
               # map2 (\<lambda>(r, d) b. (False, split_surrogate reg k sh c d b)) (nodes p ws) (tl ?fl)"
    if fx: "fixed_length p n" and fa: "forward_all p vs = Some ws" and len: "length vs = n"
      and base: "list_all (\<lambda>(r, d). \<not> is_joint (substituted reg d)) (nodes p ws)"
  proof -
    have lfl: "length ?fl = Suc n"
      using ex k fx by (rule harvest_length)
    have n: "0 < n" using fx py by (cases n) auto
    from lfl reuse_trace [OF k fx fa len base lfl n, of depth smp w sd' sh c]
    show ?thesis by blast
  qed
  from vars ne sp h again only none builder pos show ?thesis by blast
qed

theorem parameters_created_once_witness:
  "build_cf_surrogate_posterior (Suc (Suc 0)) default_registry placeholder_sample two_node_prior
       2 (1/2) SeedNone
     = Inr (Joint (Some ''prior'') True two_node_surrogate_program, VStruct two_node_variables)
   \<and> substituted default_registry two_node_prior = Joint (Some ''prior'') True two_node_program
   \<and> (0::nat) < 2
   \<and> fixed_length two_node_program 2
   \<and> forward_all two_node_program
        [VList [Tensor [3] 0, Tensor [2] 0], VList [Tensor [4] 0, Tensor [2] 0]]
       = Some [Tensor [3] 0, Tensor [4] 0]
   \<and> list_all (\<lambda>(r, d). \<not> is_joint (substituted default_registry d))
        (nodes two_node_program [Tensor [3] 0, Tensor [4] 0])
   \<and> nodes (posterior_generator
               (top_node_fn (Suc 0) default_registry placeholder_sample (1/2) 2) 2
               (Some two_node_variables) (SeedInt 7) two_node_program)
        [Tensor [2] 0, VList [Tensor [3] 0, Tensor [2] 0], VList [Tensor [4] 0, Tensor [2] 0]] =
        [(True, Transformed None (auxiliary_noise 2) (new_auxiliary_variables 2 SeedNone)),
         (False, split_surrogate default_registry 2 [2] 0 (vec_leaf ''x'' 3)
                   (base_chain [3] (1/2) 2 (SeedSplit SeedNone 1))),
         (False, split_surrogate default_registry 2 [2] 0 (vec_leaf ''y'' 4)
                   (base_chain [4] (1/2) 2 (SeedSplit (SeedSplit SeedNone 0) 1)))]
   \<and> list_all (\<lambda>b. b = None)
        (yielded_variables
           (posterior_generator
               (top_node_fn (Suc 0) default_registry placeholder_sample (1/2) 2) 2
               (Some two_node_variables) (SeedInt 7) two_node_program)
           [Tensor [2] 0, VList [Tensor [3] 0, Tensor [2] 0], VList [Tensor [4] 0, Tensor [2] 0]])"
proof -
  let ?vs = "[VList [Tensor [3] 0, Tensor [2] 0], VList [Tensor [4] 0, Tensor [2] 0]]"
  let ?ws = "[Tensor [3] 0, Tensor [4] 0]"
  let ?g = "posterior_generator
               (top_node_fn (Suc 0) default_registry placeholder_sample (1/2) 2) 2
               (Some two_node_variables) (SeedInt 7) two_node_program"
  note h1 = two_node_build
  have h2: "substituted default_registry two_node_prior
              = Joint (Some ''prior'') True two_node_program"
    by (simp add: two_node_prior_def)
  have h3: "(0::nat) < 2" by simp
  have h4: "fixed_length two_node_program 2"
    by (simp add: two_node_program_def numeral_2_eq_2)
  have h5: "forward_all two_node_program ?vs = Some ?ws"
    by (simp add: two_node_program_def vec_leaf_def)
  have h6: "length ?vs = 2" by simp
  have h7: "list_all (\<lambda>(r, d). \<not> is_joint (substituted default_registry d))
        (nodes two_node_program ?ws)"
    by (simp add: two_node_program_def) (simp add: vec_leaf_def)
  from parameters_created_once [OF h1 h2,
      where sd' = "SeedInt 7" and vs' = "Tensor [2] 0 # ?vs" and sh = "[2]" and c = 0
        and n = 2 and vs = "?vs" and ws = "?ws"
        and d' = "vec_leaf ''x'' 3" and w' = "1/2" and kb = 0 and aux = None
        and v = "Chain []" and sd'' = SeedNone] h4 h5 h6 h7
  have "nodes ?g (Tensor [2] 0 # ?vs) =
          (True, Transformed None (auxiliary_noise 2) (two_node_variables ! 0))
          # map2 (\<lambda>(r, d) b. (False, split_surrogate default_registry 2 [2] 0 d b))
              (nodes two_node_program ?ws) (tl two_node_variables)
        \<and> list_all (\<lambda>b. b = None) (yielded_variables ?g (Tensor [2] 0 # ?vs))"
    by auto
  then show ?thesis using h1 h2 h3 h4 h5 h7
    by (simp add: two_node_program_def two_node_variables_def)
qed

section \<open>Repeatability of the construction\<close>










end
